theory Spec2Isabelle
  imports Complex_Main
begin

section \<open>JavaScript values\<close>

text \<open>
  The sync script handles JSON documents received from the Steam and Notion web
  services. A JavaScript number is given by the rational it denotes: every number
  the script compares is a parsed JSON number, an integer or the quotient of two
  array lengths, so \<open>NaN\<close> and the infinities do not occur, and strict equality
  \<open>===\<close> between such values is equality in HOL. The one arithmetic operation of
  the script, the division of two array lengths, rounds as IEEE 754 does (see
  \<open>double_div\<close> below).
\<close>

datatype json =
    JNull
  | JBool bool
  | JNum rat
  | JStr string
  | JArr "json list"
  | JObj "(string \<times> json) list"

text \<open>
  A value read by a property access: \<open>undefined\<close> when the property is missing,
  the JSON value otherwise.
\<close>

datatype jsval = Undefined | Val json

text \<open>The exceptions the script can raise.\<close>

datatype error =
    TypeError            \<comment> \<open>a property read on \<open>undefined\<close> or \<open>null\<close>\<close>
  | NetworkError         \<comment> \<open>\<open>fetch\<close> rejected: the endpoint is unreachable\<close>
  | SyntaxError          \<comment> \<open>\<open>response.json()\<close> rejected: the body is not JSON\<close>
  | HttpError nat        \<comment> \<open>\<open>throw new Error(`HTTP error! status: ...`)\<close> of steam.js\<close>
  | NotionError nat      \<comment> \<open>\<open>throw new Error(`Notion API request failed ...`)\<close> of notion.js\<close>

text \<open>Truthiness, as \<open>if (v)\<close> and \<open>!v\<close> read it.\<close>

fun truthy :: "jsval \<Rightarrow> bool" where
  "truthy Undefined = False"
| "truthy (Val JNull) = False"
| "truthy (Val (JBool b)) = b"
| "truthy (Val (JNum n)) = (n \<noteq> 0)"
| "truthy (Val (JStr s)) = (s \<noteq> [])"
| "truthy (Val (JArr xs)) = True"
| "truthy (Val (JObj kvs)) = True"

text \<open>
  \<open>v.k\<close> for a key \<open>k\<close> that no primitive wrapper and no array defines (the script
  reads \<open>playerstats\<close>, \<open>achievements\<close>, \<open>achieved\<close> and \<open>error\<close>): a TypeError on
  \<open>undefined\<close> and \<open>null\<close>, the member of an object (\<open>JSON.parse\<close> keeps the last of
  duplicate keys), \<open>undefined\<close> on everything else.
\<close>

fun get_prop :: "jsval \<Rightarrow> string \<Rightarrow> error + jsval" where
  "get_prop Undefined k = Inl TypeError"
| "get_prop (Val JNull) k = Inl TypeError"
| "get_prop (Val (JObj kvs)) k =
     Inr (case map_of (rev kvs) k of None \<Rightarrow> Undefined | Some v \<Rightarrow> Val v)"
| "get_prop (Val v) k = Inr Undefined"

text \<open>
  \<open>v?.k\<close>: \<open>undefined\<close> on \<open>undefined\<close> and \<open>null\<close>, the property otherwise.
\<close>

fun opt_prop :: "jsval \<Rightarrow> string \<Rightarrow> jsval" where
  "opt_prop (Val (JObj kvs)) k =
     (case map_of (rev kvs) k of None \<Rightarrow> Undefined | Some v \<Rightarrow> Val v)"
| "opt_prop v k = Undefined"

section \<open>The console\<close>

text \<open>
  One constructor for each message the script prints, with the values the message
  interpolates.
\<close>

datatype log_entry =
    Log_starting                        \<comment> \<open>\<open>"Starting Steam to Notion synchronization..."\<close>\<close>
  | Log_found nat nat                   \<comment> \<open>\<open>`Found ... games on Steam and ... pages in Notion.`\<close>\<close>
  | Log_complete                        \<comment> \<open>\<open>"Synchronization complete."\<close>\<close>
  | Log_updating string                 \<comment> \<open>\<open>`Updating ${game.name}...`\<close>\<close>
  | Log_adding string                   \<comment> \<open>\<open>`Adding new game to Notion: ${game.name}`\<close>\<close>
  | Log_updating_page string            \<comment> \<open>\<open>`Updating Notion page (ID: ${pageId})...`\<close>\<close>
  | Log_creating_page                   \<comment> \<open>\<open>'Creating a new page in Notion...'\<close>\<close>
  | Warn_steam_notice nat jsval         \<comment> \<open>\<open>`Steam API notice for app ${appId}: ...`\<close>\<close>
  | Warn_no_achievements nat            \<comment> \<open>\<open>`No achievements data found for app ${appId}.`\<close>\<close>
  | Error_fetching_achievements nat error
      \<comment> \<open>\<open>`Error fetching achievements for app ${appId} from Steam:`, error\<close>\<close>
  | Error_notion_api nat                \<comment> \<open>\<open>`Notion API Error (${response.status}):`, errorBody\<close>\<close>
  | Error_notion_request error
      \<comment> \<open>\<open>`Failed to execute Notion API request for ${method} ${path}:`, error.message\<close>\<close>
  | Error_failed_sync string nat error
      \<comment> \<open>\<open>`Failed to sync page for ${game.name} (appid: ${appid})`, error\<close>\<close>

text \<open>The entries the driver's \<open>catch\<close> prints: an item that failed to sync.\<close>

fun is_failed_sync :: "log_entry \<Rightarrow> bool" where
  "is_failed_sync (Error_failed_sync n a e) = True"
| "is_failed_sync l = False"

section \<open>steam.js: the achievement summary\<close>

text \<open>
  What \<open>fetch(url)\<close> gives for the achievements endpoint: the request fails, or a
  response arrives with a status and a body; the body is \<open>None\<close> when
  \<open>response.json()\<close> rejects. \<open>response.ok\<close> is true for a status from 200 to 299.
\<close>

datatype http_response = Unreachable | Response nat "json option"

definition ok :: "nat \<Rightarrow> bool" where
  "ok status = (200 \<le> status \<and> status \<le> 299)"

text \<open>The value \<open>getGameAchievements\<close> resolves to.\<close>

record achievements_result =
  achievements :: "json list"
  completionRate :: rat

text \<open>The sentinel result \<open>{ achievements: [], completionRate: -1 }\<close>.\<close>

definition no_stats :: achievements_result where
  "no_stats = \<lparr>achievements = [], completionRate = - 1\<rparr>"

text \<open>
  \<open>a / b\<close> for two array lengths, \<open>b\<close> not 0: the binary64 number nearest to the
  quotient, ties going to the even significand. Array lengths are below \<open>2^32\<close>, so
  both operands are exact and the quotient of a positive \<open>a\<close> is far from the
  subnormal range. \<open>scale\<close> doubles the numerator until the quotient has 53
  significant bits before the binary point, \<open>round_half_even\<close> rounds it to an
  integer, and the result is that integer over the power of two reached.
\<close>

function scale :: "nat \<Rightarrow> nat \<Rightarrow> nat \<Rightarrow> nat \<times> nat" where
  "scale n p b = (if n = 0 \<or> b * 2 ^ 52 \<le> n then (n, p) else scale (2 * n) (2 * p) b)"
  by pat_completeness auto
termination
  by (relation "measure (\<lambda>(n, p, b). b * 2 ^ 52 - n)") auto

declare scale.simps [simp del]

definition round_half_even :: "nat \<Rightarrow> nat \<Rightarrow> nat" where
  "round_half_even n b =
     (let d = n div b; r = n mod b in
      if 2 * r < b then d
      else if b < 2 * r then d + 1
      else if even d then d else d + 1)"

definition double_div :: "nat \<Rightarrow> nat \<Rightarrow> rat" where
  "double_div a b =
     (case scale a 1 b of (n, p) \<Rightarrow> of_nat (round_half_even n b) / of_nat p)"

text \<open>
  \<open>achievements.filter(ach => ach.achieved === 1).length\<close>: the callback raises a
  TypeError on a \<open>null\<close> entry, which ends the filter.
\<close>

fun achievedCount :: "json list \<Rightarrow> error + nat" where
  "achievedCount [] = Inr 0"
| "achievedCount (ach # rest) =
     (case get_prop (Val ach) ''achieved'' of
        Inl e \<Rightarrow> Inl e
      | Inr v \<Rightarrow>
          (case achievedCount rest of
             Inl e \<Rightarrow> Inl e
           | Inr n \<Rightarrow> Inr (if v = Val (JNum 1) then Suc n else n)))"

text \<open>
  The statements of \<open>getGameAchievements\<close> from \<open>const data = await response.json()\<close>
  on, for a parsed body: the value returned or the exception raised, and what is
  printed on the way.
\<close>

definition summarise :: "nat \<Rightarrow> json \<Rightarrow> (error + achievements_result) \<times> log_entry list" where
  "summarise appId data =
     (case get_prop (Val data) ''playerstats'' of
        Inl e \<Rightarrow> (Inl e, [])
      | Inr playerstats \<Rightarrow>
          if \<not> truthy playerstats then (Inr no_stats, [Warn_no_achievements appId])
          else
            (case get_prop playerstats ''achievements'' of
               Inl e \<Rightarrow> (Inl e, [])
             | Inr v \<Rightarrow>
                 (case v of
                    Val (JArr list) \<Rightarrow>
                      let totalAchievements = length list in
                      if totalAchievements = 0 then (Inr no_stats, [])
                      else
                        (case achievedCount list of
                           Inl e \<Rightarrow> (Inl e, [])
                         | Inr n \<Rightarrow>
                             (Inr \<lparr>achievements = list,
                                   completionRate = double_div n totalAchievements\<rparr>,
                              []))
                  | _ \<Rightarrow> (Inr no_stats, [Warn_no_achievements appId]))))"

text \<open>
  The body of the \<open>try\<close> block. A status 400 returns the sentinel whatever the body
  is (\<open>response.json().catch(() => null)\<close> swallows a body that does not parse),
  after printing the notice \<open>errorData?.playerstats?.error\<close> when there is one;
  every other status outside 200..299 throws.
\<close>

definition getGameAchievements_try ::
  "nat \<Rightarrow> http_response \<Rightarrow> (error + achievements_result) \<times> log_entry list" where
  "getGameAchievements_try appId r =
     (case r of
        Unreachable \<Rightarrow> (Inl NetworkError, [])
      | Response status body \<Rightarrow>
          if \<not> ok status then
            (if status = 400 then
               (let errorData = (case body of None \<Rightarrow> Val JNull | Some d \<Rightarrow> Val d);
                    notice = opt_prop (opt_prop errorData ''playerstats'') ''error''
                in (Inr no_stats, if truthy notice then [Warn_steam_notice appId notice] else []))
             else (Inl (HttpError status), []))
          else
            (case body of
               None \<Rightarrow> (Inl SyntaxError, [])
             | Some data \<Rightarrow> summarise appId data))"

text \<open>
  \<open>getGameAchievements\<close>: the \<open>catch\<close> block prints the exception of the \<open>try\<close>
  block and returns the sentinel.
\<close>

definition getGameAchievements ::
  "nat \<Rightarrow> http_response \<Rightarrow> achievements_result \<times> log_entry list" where
  "getGameAchievements appId r =
     (case getGameAchievements_try appId r of
        (Inl e, out) \<Rightarrow> (no_stats, out @ [Error_fetching_achievements appId e])
      | (Inr res, out) \<Rightarrow> (res, out))"

text \<open>
  The response Steam gives for a game whose achievements carry the given
  \<open>achieved\<close> flags (1 for achieved, 0 otherwise).
\<close>

definition stats_response :: "nat list \<Rightarrow> http_response" where
  "stats_response flags =
     Response 200 (Some (JObj [(''playerstats'',
       JObj [(''achievements'',
         JArr (map (\<lambda>f. JObj [(''achieved'', JNum (of_nat f))]) flags))])]))"

section \<open>Notion pages\<close>

text \<open>
  A property object of a Notion page, as the script reads and writes it: a number
  property \<open>{ number: n }\<close> (\<open>None\<close> for \<open>null\<close>, an empty cell), a title property
  \<open>{ title: [...] }\<close> whose items are given by what \<open>item?.text?.content\<close> evaluates
  to (\<open>None\<close> for \<open>undefined\<close>), or a property of another type, which has neither a
  \<open>number\<close> nor a \<open>title\<close> field.
\<close>

datatype property =
    Number_prop "rat option"
  | Title_prop "string option list"
  | Other_prop json

text \<open>
  A page has its Notion identifier and its properties by name. A page without
  \<open>properties\<close> is a page with the empty map: every optional chain from
  \<open>page.properties\<close> is \<open>undefined\<close> for both.
\<close>

record page =
  page_id :: string
  properties :: "string \<rightharpoonup> property"

text \<open>\<open>properties?.k?.number\<close>\<close>

definition number :: "(string \<rightharpoonup> property) \<Rightarrow> string \<Rightarrow> jsval" where
  "number props k =
     (case props k of
        Some (Number_prop (Some n)) \<Rightarrow> Val (JNum n)
      | Some (Number_prop None) \<Rightarrow> Val JNull
      | _ \<Rightarrow> Undefined)"

text \<open>
  \<open>properties?.name?.title[0]?.text?.content\<close>: \<open>undefined\<close> when there is no
  \<open>name\<close> property or its title array is empty, and a TypeError when \<open>name\<close> is
  not a title property, since \<open>title[0]\<close> then indexes \<open>undefined\<close>.
\<close>

definition title_content :: "(string \<rightharpoonup> property) \<Rightarrow> error + string option" where
  "title_content props =
     (case props ''name'' of
        None \<Rightarrow> Inr None
      | Some (Title_prop []) \<Rightarrow> Inr None
      | Some (Title_prop (item # items)) \<Rightarrow> Inr item
      | Some other \<Rightarrow> Inl TypeError)"

section \<open>notion.js: the requests\<close>

text \<open>
  The two writes: \<open>PATCH /pages/<id>\<close> with \<open>{ properties }\<close>, and \<open>POST /pages\<close>
  with the properties and the URL of the external cover (the parent database comes
  from the configuration). The properties of a request are the entries of the
  JavaScript object in insertion order.
\<close>

datatype notion_request =
    UpdatePage string "(string \<times> property) list"
  | CreatePage "(string \<times> property) list" string

text \<open>
  What \<open>fetch\<close> gives for a request to Notion: with the status, whether the
  \<open>content-length\<close> header is \<open>'0'\<close>, and whether the body parses as JSON.
\<close>

datatype notion_response = Notion_unreachable | Notion_response nat bool bool

text \<open>
  The world outside the script: the answer of the achievements endpoint for each
  appid, the answer of Notion to each write, and the identifier Notion gives a page
  created in a database.
\<close>

record env =
  steam :: "nat \<Rightarrow> http_response"
  notion :: "notion_request \<Rightarrow> notion_response"
  new_page_id :: "page list \<Rightarrow> string"

text \<open>
  The state a run acts on: the pages of the Notion database, the appids whose
  achievements were requested from Steam, the writes sent to Notion, and the
  console.
\<close>

record world =
  database :: "page list"
  fetched :: "nat list"
  sent :: "notion_request list"
  console :: "log_entry list"

text \<open>
  Modelled from the spec: the Notion service, which is not part of the repository.
  Records are "mutated remotely via partial updates, never deleted": an update
  replaces, on the page with the given identifier, the properties the request
  names and keeps every other one; a create adds a page with the request's
  properties, here at the end of the list the next query returns.
\<close>

fun patch :: "(string \<rightharpoonup> property) \<Rightarrow> (string \<times> property) list \<Rightarrow> (string \<rightharpoonup> property)" where
  "patch props [] = props"
| "patch props ((k, v) # kvs) = patch (props(k \<mapsto> v)) kvs"

fun serve :: "env \<Rightarrow> notion_request \<Rightarrow> page list \<Rightarrow> page list" where
  "serve e (UpdatePage pid delta) pages =
     map (\<lambda>p. if page_id p = pid then p\<lparr>properties := patch (properties p) delta\<rparr> else p) pages"
| "serve e (CreatePage props cover) pages =
     pages @ [\<lparr>page_id = new_page_id e pages, properties = patch Map.empty props\<rparr>]"

text \<open>
  \<open>notionApiRequest\<close>. The request is sent; Notion applies it when it answers with
  a success status. A failure status throws after printing the error body, unless
  the body does not parse: then \<open>response.text()\<close> finds the body already read and
  raises a TypeError instead. A success with status 204 or no content returns
  \<open>null\<close>; otherwise the body is parsed. The \<open>catch\<close> prints the exception and
  throws it again.
\<close>

definition notionApiRequest :: "env \<Rightarrow> notion_request \<Rightarrow> world \<Rightarrow> (error + unit) \<times> world" where
  "notionApiRequest e req w =
     (let w1 = w\<lparr>sent := sent w @ [req]\<rparr> in
      case notion e req of
        Notion_unreachable \<Rightarrow>
          (Inl NetworkError, w1\<lparr>console := console w1 @ [Error_notion_request NetworkError]\<rparr>)
      | Notion_response status no_content parses \<Rightarrow>
          if \<not> ok status then
            (if parses then
               (Inl (NotionError status),
                w1\<lparr>console := console w1 @
                  [Error_notion_api status, Error_notion_request (NotionError status)]\<rparr>)
             else
               (Inl TypeError, w1\<lparr>console := console w1 @ [Error_notion_request TypeError]\<rparr>))
          else
            (let w2 = w1\<lparr>database := serve e req (database w1)\<rparr> in
             if status = 204 \<or> no_content then (Inr (), w2)
             else if parses then (Inr (), w2)
             else (Inl SyntaxError, w2\<lparr>console := console w2 @ [Error_notion_request SyntaxError]\<rparr>)))"

definition updatePage ::
  "env \<Rightarrow> string \<Rightarrow> (string \<times> property) list \<Rightarrow> world \<Rightarrow> (error + unit) \<times> world" where
  "updatePage e pageId props w =
     notionApiRequest e (UpdatePage pageId props)
       (w\<lparr>console := console w @ [Log_updating_page pageId]\<rparr>)"

definition createPage ::
  "env \<Rightarrow> (string \<times> property) list \<Rightarrow> string \<Rightarrow> world \<Rightarrow> (error + unit) \<times> world" where
  "createPage e props cover w =
     notionApiRequest e (CreatePage props cover)
       (w\<lparr>console := console w @ [Log_creating_page]\<rparr>)"

section \<open>index.js: the synchronisation\<close>

text \<open>
  A game of the Steam library, as \<open>GetOwnedGames\<close> lists it: the appid, the name and
  the minutes played.
\<close>

record game =
  appid :: nat
  name :: string
  playtime_forever :: nat

text \<open>
  The decimal digits of a number: what a template literal interpolates for a
  non-negative integer below \<open>10^21\<close>.
\<close>

fun string_of_nat :: "nat \<Rightarrow> string" where
  "string_of_nat n =
     (if n < 10 then [''0123456789'' ! n]
      else string_of_nat (n div 10) @ [''0123456789'' ! (n mod 10)])"

declare string_of_nat.simps [simp del]

definition cover_url :: "nat \<Rightarrow> string" where
  "cover_url a =
     ''https://cdn.akamai.steamstatic.com/steam/apps/'' @ string_of_nat a @ ''/header.jpg''"

text \<open>
  The callback of the \<open>reduce\<close> that builds \<open>notionAppIdMap\<close>. The keys of the
  JavaScript object are the numbers written as strings; the model keeps the numbers,
  distinct numbers being written differently.
\<close>

definition index_page :: "(rat \<rightharpoonup> page) \<Rightarrow> page \<Rightarrow> (rat \<rightharpoonup> page)" where
  "index_page m page =
     (let a = number (properties page) ''appid'' in
      if truthy a then (case a of Val (JNum n) \<Rightarrow> m(n \<mapsto> page) | _ \<Rightarrow> m)
      else m)"

definition notionAppIdMap :: "page list \<Rightarrow> (rat \<rightharpoonup> page)" where
  "notionAppIdMap notionPages = foldl index_page Map.empty notionPages"

text \<open>
  \<open>await getGameAchievements(config.steamKey, config.steamId, game.appid)\<close>: the
  request is recorded, and what the function prints goes to the console.
\<close>

definition fetchAchievements :: "env \<Rightarrow> nat \<Rightarrow> world \<Rightarrow> achievements_result \<times> world" where
  "fetchAchievements e a w =
     (case getGameAchievements a (steam e a) of
        (res, out) \<Rightarrow> (res, w\<lparr>fetched := fetched w @ [a], console := console w @ out\<rparr>))"

text \<open>
  The first part of \<open>updateExistingGamePage\<close>: the object \<open>propertiesToUpdate\<close> as
  it stands before the last \<open>if\<close>, or the exception raised on the way.
\<close>

definition propertiesToUpdate ::
  "env \<Rightarrow> game \<Rightarrow> page \<Rightarrow> world \<Rightarrow> (error + (string \<times> property) list) \<times> world" where
  "propertiesToUpdate e game page w =
     (let existingProperties = properties page in
      case title_content existingProperties of
        Inl err \<Rightarrow> (Inl err, w)
      | Inr content \<Rightarrow>
          (let d1 = (if content \<noteq> Some (name game)
                     then [(''name'', Title_prop [Some (name game)])] else [])
           in
           if number existingProperties ''play_time'' \<noteq> Val (JNum (of_nat (playtime_forever game)))
           then
             (case fetchAchievements e (appid game) w of
                (res, w1) \<Rightarrow>
                  (Inr (d1 @ [(''play_time'', Number_prop (Some (of_nat (playtime_forever game))))]
                        @ (if completionRate res \<noteq> - 1 \<and>
                              number existingProperties ''achievement''
                                \<noteq> Val (JNum (completionRate res))
                           then [(''achievement'', Number_prop (Some (completionRate res)))]
                           else [])),
                   w1))
           else (Inr d1, w)))"

definition updateExistingGamePage :: "env \<Rightarrow> game \<Rightarrow> page \<Rightarrow> world \<Rightarrow> (error + unit) \<times> world" where
  "updateExistingGamePage e game page w =
     (case propertiesToUpdate e game page w of
        (Inl err, w1) \<Rightarrow> (Inl err, w1)
      | (Inr delta, w1) \<Rightarrow>
          if length delta > 0
          then updatePage e (page_id page) delta
                 (w1\<lparr>console := console w1 @ [Log_updating (name game)]\<rparr>)
          else (Inr (), w1))"

definition createNewGamePage :: "env \<Rightarrow> game \<Rightarrow> world \<Rightarrow> (error + unit) \<times> world" where
  "createNewGamePage e game w =
     (case fetchAchievements e (appid game)
             (w\<lparr>console := console w @ [Log_adding (name game)]\<rparr>) of
        (res, w1) \<Rightarrow>
          createPage e
            ([(''appid'', Number_prop (Some (of_nat (appid game)))),
              (''name'', Title_prop [Some (name game)]),
              (''play_time'', Number_prop (Some (of_nat (playtime_forever game))))]
             @ (if completionRate res \<noteq> - 1
                then [(''achievement'', Number_prop (Some (completionRate res)))] else []))
            (cover_url (appid game)) w1)"

text \<open>
  The body of the loop over \<open>steamGames\<close>: the page is looked up under the game's
  appid, and the \<open>catch\<close> prints the exception of either branch.
\<close>

definition sync_game :: "env \<Rightarrow> (rat \<rightharpoonup> page) \<Rightarrow> world \<Rightarrow> game \<Rightarrow> world" where
  "sync_game e m w game =
     (case (case m (of_nat (appid game)) of
              Some existingPage \<Rightarrow> updateExistingGamePage e game existingPage w
            | None \<Rightarrow> createNewGamePage e game w) of
        (Inl err, w1) \<Rightarrow>
          w1\<lparr>console := console w1 @ [Error_failed_sync (name game) (appid game) err]\<rparr>
      | (Inr u, w1) \<Rightarrow> w1)"

text \<open>
  \<open>syncSteamGamesToNotion\<close>, from the two lists on: \<open>steamGames\<close> are the games in
  the order the loop enumerates them (the object \<open>getOwnedGames\<close> returns has one
  entry for each appid), and the pages are those of the database, read in full
  before the loop starts.
\<close>

definition syncSteamGamesToNotion :: "env \<Rightarrow> game list \<Rightarrow> world \<Rightarrow> world" where
  "syncSteamGamesToNotion e steamGames w =
     (let notionPages = database w;
          w1 = w\<lparr>console := console w @
                 [Log_starting, Log_found (length steamGames) (length notionPages)]\<rparr>;
          w2 = foldl (sync_game e (notionAppIdMap notionPages)) w1 steamGames
      in w2\<lparr>console := console w2 @ [Log_complete]\<rparr>)"

section \<open>Notions used by the properties\<close>

text \<open>\<open>ach.achieved === 1\<close>, for an entry that is not \<open>null\<close>.\<close>

definition achieved :: "json \<Rightarrow> bool" where
  "achieved ach = (get_prop (Val ach) ''achieved'' = Inr (Val (JNum 1)))"

text \<open>The body \<open>{ playerstats: { achievements: [...] } }\<close>.\<close>

definition playerstats_body :: "json list \<Rightarrow> json" where
  "playerstats_body achs = JObj [(''playerstats'', JObj [(''achievements'', JArr achs)])]"

text \<open>The completion rate the script reads for an appid.\<close>

definition fetched_rate :: "env \<Rightarrow> nat \<Rightarrow> rat" where
  "fetched_rate e a = completionRate (fst (getGameAchievements a (steam e a)))"

text \<open>The page carries the number \<open>n\<close> as its \<open>appid\<close>.\<close>

definition has_appid :: "rat \<Rightarrow> page \<Rightarrow> bool" where
  "has_appid n p = (number (properties p) ''appid'' = Val (JNum n))"

text \<open>The number a string of decimal digits denotes.\<close>

definition nat_of_string :: "string \<Rightarrow> nat" where
  "nat_of_string s = foldl (\<lambda>acc c. 10 * acc + (of_char c - 48)) 0 s"

text \<open>Notion answers the write with a success status, and so applies it.\<close>

definition accepted :: "env \<Rightarrow> notion_request \<Rightarrow> bool" where
  "accepted e req =
     (case notion e req of
        Notion_unreachable \<Rightarrow> False
      | Notion_response status no_content parses \<Rightarrow> ok status)"

text \<open>
  The page agrees with the game on what an update compares: the title read from
  the page is the game's name and its \<open>play_time\<close> is the game's playtime.
\<close>

definition in_sync :: "game \<Rightarrow> page \<Rightarrow> bool" where
  "in_sync game page =
     (title_content (properties page) = Inr (Some (name game))
      \<and> number (properties page) ''play_time'' = Val (JNum (of_nat (playtime_forever game))))"

text \<open>
  A step of the loop sends nothing for the game and this page: they agree, or the
  title of the page cannot be read.
\<close>

definition settled :: "game \<Rightarrow> page \<Rightarrow> bool" where
  "settled game page =
     (in_sync game page \<or> title_content (properties page) = Inl TypeError)"

text \<open>
  The invariant of the loop of a run whose writes Notion accepts, for the index
  \<open>m0\<close> built before the loop and the games \<open>seen\<close> so far: page identifiers are
  distinct, the index of the pages as they are now leads every game seen to a
  settled page, and agrees with \<open>m0\<close> on every other key.
\<close>

definition reconciled :: "(rat \<rightharpoonup> page) \<Rightarrow> game list \<Rightarrow> page list \<Rightarrow> bool" where
  "reconciled m0 seen pages =
     (distinct (map page_id pages)
      \<and> (\<forall>g \<in> set seen. \<exists>p. notionAppIdMap pages (of_nat (appid g)) = Some p \<and> settled g p)
      \<and> (\<forall>k. k \<notin> (\<lambda>g. of_nat (appid g)) ` set seen \<longrightarrow> notionAppIdMap pages k = m0 k))"

subsection \<open>The scenarios of the specification\<close>

text \<open>
  Scenario A: the game 10, "Game A", played 120 minutes, with no page in Notion.
  Scenario B: the game 20, "Game B", played 500 minutes, whose page says 300
  minutes and a completion of 0.5, while Steam reports three achievements of four
  (the ratios are chosen among the binary fractions, which a double holds exactly).
  Scenario C: the game as the page of scenario B has it, played 300 minutes.
\<close>

definition game_a :: game where
  "game_a = \<lparr>appid = 10, name = ''Game A'', playtime_forever = 120\<rparr>"

definition game_b :: game where
  "game_b = \<lparr>appid = 20, name = ''Game B'', playtime_forever = 500\<rparr>"

definition game_c :: game where
  "game_c = \<lparr>appid = 20, name = ''Game B'', playtime_forever = 300\<rparr>"

definition page_b :: page where
  "page_b = \<lparr>page_id = ''page-b'',
     properties = [''appid'' \<mapsto> Number_prop (Some 20),
                   ''name'' \<mapsto> Title_prop [Some ''Game B''],
                   ''play_time'' \<mapsto> Number_prop (Some 300),
                   ''achievement'' \<mapsto> Number_prop (Some (1 / 2))]\<rparr>"

text \<open>
  A Steam that reports three achievements of four for every game and a Notion that
  accepts every write and names a new page by an identifier longer than every
  identifier in use; a Steam that cannot be reached; a Notion that answers every
  write with status 500.
\<close>

definition env_ok :: env where
  "env_ok = \<lparr>steam = (\<lambda>a. stats_response [1, 1, 1, 0]),
             notion = (\<lambda>req. Notion_response 200 False True),
             new_page_id = (\<lambda>pages. concat (map page_id pages) @ ''+'')\<rparr>"

definition env_unreachable :: env where
  "env_unreachable = env_ok\<lparr>steam := (\<lambda>a. Unreachable)\<rparr>"

definition env_failing :: env where
  "env_failing = env_ok\<lparr>notion := (\<lambda>req. Notion_response 500 False True)\<rparr>"

definition world0 :: "page list \<Rightarrow> world" where
  "world0 pages = \<lparr>database = pages, fetched = [], sent = [], console = []\<rparr>"

section \<open>Properties of the division\<close>

lemma scale_eq:
  assumes "0 < n" and "b * 2 ^ 52 \<le> n * 2 ^ s" and "s = 0 \<or> n * 2 ^ (s - 1) < b * 2 ^ 52"
  shows "scale n p b = (n * 2 ^ s, p * 2 ^ s)"
  using assms
proof (induction s arbitrary: n p)
  case 0
  then show ?case by (subst scale.simps) simp
next
  case (Suc s)
  from Suc.prems(3) have lt: "n * 2 ^ s < b * 2 ^ 52" by simp
  have "n \<le> n * 2 ^ s" by simp
  with lt have small: "\<not> b * 2 ^ 52 \<le> n" by linarith
  have "scale (2 * n) (2 * p) b = (2 * n * 2 ^ s, 2 * p * 2 ^ s)"
  proof (rule Suc.IH)
    show "0 < 2 * n" using Suc.prems(1) by simp
    show "b * 2 ^ 52 \<le> 2 * n * 2 ^ s" using Suc.prems(2) by (simp add: mult.commute mult.left_commute)
    show "s = 0 \<or> 2 * n * 2 ^ (s - 1) < b * 2 ^ 52"
    proof (cases s)
      case 0
      then show ?thesis by simp
    next
      case (Suc k)
      with lt show ?thesis by (simp add: mult.commute mult.left_commute)
    qed
  qed
  with small Suc.prems(1) show ?case
    by (subst scale.simps) (simp add: mult.commute mult.left_commute)
qed

lemma scale_zero: "scale 0 p b = (0, p)"
  by (subst scale.simps) simp

lemma scale_ex:
  "0 < n \<Longrightarrow> \<exists>s. scale n p b = (n * 2 ^ s, p * 2 ^ s) \<and> b * 2 ^ 52 \<le> n * 2 ^ s
     \<and> (s = 0 \<or> n * 2 ^ (s - 1) < b * 2 ^ 52)"
proof (induction n p b rule: scale.induct)
  case (1 n p b)
  show ?case
  proof (cases "b * 2 ^ 52 \<le> n")
    case True
    then have "scale n p b = (n * 2 ^ 0, p * 2 ^ 0)" by (subst scale.simps) simp
    with True show ?thesis by (intro exI [of _ 0]) simp
  next
    case False
    with 1 obtain s where s: "scale (2 * n) (2 * p) b = (2 * n * 2 ^ s, 2 * p * 2 ^ s)"
        "b * 2 ^ 52 \<le> 2 * n * 2 ^ s" "s = 0 \<or> 2 * n * 2 ^ (s - 1) < b * 2 ^ 52"
      by auto
    from False 1(2) have "scale n p b = scale (2 * n) (2 * p) b"
      by (subst scale.simps) simp
    with s(1) have "scale n p b = (n * 2 ^ Suc s, p * 2 ^ Suc s)"
      by (simp add: mult.commute mult.left_commute)
    moreover have "b * 2 ^ 52 \<le> n * 2 ^ Suc s"
      using s(2) by (simp add: mult.commute mult.left_commute)
    moreover have "n * 2 ^ (Suc s - 1) < b * 2 ^ 52"
    proof (cases s)
      case 0
      with False show ?thesis by simp
    next
      case (Suc k)
      with s(3) show ?thesis by (simp add: mult.commute mult.left_commute)
    qed
    ultimately show ?thesis by blast
  qed
qed

lemma s13: "scale 1 1 3 = (2 ^ 54, 2 ^ 54)"
  using scale_eq [of 1 3 54 1] by simp

lemma d13: "double_div 1 3 = 6004799503160661 / 18014398509481984"
  unfolding double_div_def s13 by (simp add: round_half_even_def)

lemma s34: "scale 3 1 4 = (3 * 2 ^ 53, 2 ^ 53)"
  using scale_eq [of 3 4 53 1] by simp

lemma d34: "double_div 3 4 = 3 / 4"
  unfolding double_div_def s34 by (simp add: round_half_even_def)

lemma round_half_even_near:
  assumes "0 < b"
  shows "2 * (round_half_even n b * b) \<le> 2 * n + b"
    and "2 * n \<le> 2 * (round_half_even n b * b) + b"
proof -
  define d where "d = n div b"
  define r where "r = n mod b"
  have n: "n = d * b + r" by (simp add: d_def r_def)
  have r: "r < b" using assms by (simp add: r_def)
  have m: "round_half_even n b = d \<and> 2 * r \<le> b \<or> round_half_even n b = d + 1 \<and> b \<le> 2 * r"
    by (auto simp: round_half_even_def Let_def d_def r_def)
  from m show "2 * (round_half_even n b * b) \<le> 2 * n + b"
    using r by (auto simp: n algebra_simps)
  from m show "2 * n \<le> 2 * (round_half_even n b * b) + b"
    using r by (auto simp: n algebra_simps)
qed

lemma round_half_even_exact:
  assumes "0 < b" and "b dvd n"
  shows "round_half_even n b * b = n"
  using assms by (auto simp: round_half_even_def Let_def)

lemma round_half_even_le:
  assumes "0 < b" and "n \<le> p * b"
  shows "round_half_even n b \<le> p"
proof (rule ccontr)
  assume "\<not> round_half_even n b \<le> p"
  then have "p + 1 \<le> round_half_even n b" by simp
  then have "(p + 1) * b \<le> round_half_even n b * b" by (rule mult_le_mono1)
  then have "2 * (p * b) + 2 * b \<le> 2 * (round_half_even n b * b)" by (simp add: algebra_simps)
  also have "\<dots> \<le> 2 * n + b" using assms(1) by (rule round_half_even_near(1))
  finally show False using assms by simp
qed

lemma double_div_zero: "0 < b \<Longrightarrow> double_div 0 b = 0"
  by (simp add: double_div_def scale_zero round_half_even_def)

lemma shift_ge:
  fixes a b k s :: nat
  assumes "0 < a" and "a \<le> b" and "b * 2 ^ k \<le> a * 2 ^ s"
  shows "k \<le> s"
proof -
  have "a * 2 ^ k \<le> b * 2 ^ k" using assms(2) by simp
  then have "a * 2 ^ k \<le> a * 2 ^ s" using assms(3) by (rule le_trans)
  with assms(1) have "(2 :: nat) ^ k \<le> 2 ^ s" by simp
  then show ?thesis by simp
qed

lemma double_div_scaled:
  assumes "0 < a" and "a \<le> b"
  obtains s where "52 \<le> s"
    and "double_div a b = of_nat (round_half_even (a * 2 ^ s) b) / 2 ^ s"
proof -
  from assms(1) obtain s where s: "scale a 1 b = (a * 2 ^ s, 1 * 2 ^ s)"
      "b * 2 ^ 52 \<le> a * 2 ^ s"
    using scale_ex [of a 1 b] by blast
  from assms s(2) have "52 \<le> s" by (rule shift_ge)
  moreover have "double_div a b = of_nat (round_half_even (a * 2 ^ s) b) / 2 ^ s"
    unfolding double_div_def s(1) by simp
  ultimately show ?thesis by (rule that)
qed

lemma double_div_range:
  assumes "0 < b" and "a \<le> b"
  shows "0 \<le> double_div a b" and "double_div a b \<le> 1"
proof -
  have "0 \<le> double_div a b \<and> double_div a b \<le> 1"
  proof (cases "a = 0")
    case True
    with assms show ?thesis by (simp add: double_div_zero)
  next
    case False
    then obtain s where s: "double_div a b = of_nat (round_half_even (a * 2 ^ s) b) / 2 ^ s"
      using assms(2) double_div_scaled [of a b] by auto
    have "a * 2 ^ s \<le> 2 ^ s * b" using assms(2) by (simp add: mult.commute)
    with assms(1) have "round_half_even (a * 2 ^ s) b \<le> 2 ^ s" by (rule round_half_even_le)
    then have "(of_nat (round_half_even (a * 2 ^ s) b) :: rat) \<le> of_nat (2 ^ s)"
      by (simp only: of_nat_le_iff)
    then show ?thesis by (simp add: s divide_le_eq_1)
  qed
  then show "0 \<le> double_div a b" and "double_div a b \<le> 1" by simp_all
qed

lemma double_div_exact:
  assumes "0 < b" and "a \<le> b" and "b dvd a * 2 ^ 52"
  shows "double_div a b = of_nat a / of_nat b"
proof (cases "a = 0")
  case True
  with assms show ?thesis by (simp add: double_div_zero)
next
  case False
  then obtain s where s: "52 \<le> s"
      "double_div a b = of_nat (round_half_even (a * 2 ^ s) b) / 2 ^ s"
    using assms(2) double_div_scaled [of a b] by auto
  from s(1) have "(2 :: nat) ^ 52 dvd 2 ^ s" by (rule le_imp_power_dvd)
  then have "a * 2 ^ 52 dvd a * 2 ^ s" by (rule mult_dvd_mono [OF dvd_refl])
  with assms(3) have "b dvd a * 2 ^ s" by (rule dvd_trans)
  with assms(1) have "round_half_even (a * 2 ^ s) b * b = a * 2 ^ s"
    by (rule round_half_even_exact)
  then have "(of_nat (round_half_even (a * 2 ^ s) b) :: rat) * of_nat b = of_nat a * 2 ^ s"
    by (metis of_nat_mult of_nat_numeral of_nat_power)
  with assms(1) show ?thesis by (simp add: s(2) field_simps)
qed

lemma double_div_near:
  assumes "0 < b" and "a \<le> b"
  shows "\<bar>double_div a b - of_nat a / of_nat b\<bar> \<le> 1 / 2 ^ 53"
proof (cases "a = 0")
  case True
  with assms show ?thesis by (simp add: double_div_zero)
next
  case False
  then obtain s where s: "52 \<le> s"
      "double_div a b = of_nat (round_half_even (a * 2 ^ s) b) / 2 ^ s"
    using assms(2) double_div_scaled [of a b] by auto
  define m where "m = round_half_even (a * 2 ^ s) b"
  have up: "2 * (m * b) \<le> 2 * (a * 2 ^ s) + b" and lo: "2 * (a * 2 ^ s) \<le> 2 * (m * b) + b"
    unfolding m_def using assms(1) by (rule round_half_even_near)+
  have up': "2 * (of_nat m * of_nat b) \<le> 2 * (of_nat a * 2 ^ s) + (of_nat b :: rat)"
    using up by (metis (mono_tags) of_nat_add of_nat_le_iff of_nat_mult of_nat_numeral of_nat_power)
  have lo': "2 * (of_nat a * 2 ^ s) \<le> 2 * (of_nat m * of_nat b) + (of_nat b :: rat)"
    using lo by (metis (mono_tags) of_nat_add of_nat_le_iff of_nat_mult of_nat_numeral of_nat_power)
  have bpos: "(0 :: rat) < of_nat b" using assms(1) by simp
  have diff: "\<bar>of_nat m / 2 ^ s - of_nat a / (of_nat b :: rat)\<bar> \<le> 1 / (2 * 2 ^ s)"
  proof -
    define x :: rat where "x = of_nat m * of_nat b - of_nat a * 2 ^ s"
    define den :: rat where "den = 2 ^ s * of_nat b"
    have den: "0 < den" using bpos by (simp add: den_def)
    have eq: "of_nat m / 2 ^ s - of_nat a / (of_nat b :: rat) = x / den"
      using bpos by (simp add: x_def den_def field_simps)
    have absx: "\<bar>x\<bar> \<le> of_nat b / 2"
      unfolding x_def using up' lo' by linarith
    have "\<bar>x / den\<bar> = \<bar>x\<bar> / den" using den by (simp add: abs_divide)
    also have "\<dots> \<le> (of_nat b / 2) / den"
      using absx den by (intro divide_right_mono) simp_all
    also have "\<dots> = 1 / (2 * 2 ^ s)" using bpos by (simp add: den_def)
    finally show ?thesis unfolding eq .
  qed
  have "(2 :: rat) ^ 52 \<le> 2 ^ s" using s(1) by (intro power_increasing) simp_all
  then have "(2 :: rat) ^ 53 \<le> 2 * 2 ^ s" by simp
  then have "1 / (2 * 2 ^ s) \<le> 1 / (2 :: rat) ^ 53"
    by (intro divide_left_mono) simp_all
  with diff show ?thesis unfolding s(2) m_def by linarith
qed

lemma s12: "scale 1 1 2 = (2 ^ 53, 2 ^ 53)"
  using scale_eq [of 1 2 53 1] by simp

lemma d12: "double_div 1 2 = 1 / 2"
  unfolding double_div_def s12 by (simp add: round_half_even_def)

section \<open>Properties of the achievement summary\<close>

lemma achievedCount_filter:
  "JNull \<notin> set achs \<Longrightarrow> achievedCount achs = Inr (length (filter achieved achs))"
proof (induction achs)
  case Nil
  then show ?case by simp
next
  case (Cons ach rest)
  then have "ach \<noteq> JNull" by auto
  then obtain v where "get_prop (Val ach) ''achieved'' = Inr v"
    by (cases ach) auto
  with Cons show ?case by (auto simp: achieved_def)
qed

lemma achievedCount_le: "achievedCount achs = Inr n \<Longrightarrow> n \<le> length achs"
  by (induction achs arbitrary: n) (auto split: sum.splits if_splits)

lemma summarise_body:
  "summarise a (playerstats_body achs) =
     (if achs = [] then (Inr no_stats, [])
      else case achievedCount achs of
             Inl e \<Rightarrow> (Inl e, [])
           | Inr n \<Rightarrow>
               (Inr \<lparr>achievements = achs, completionRate = double_div n (length achs)\<rparr>, []))"
  by (simp add: summarise_def playerstats_body_def Let_def)

lemma getGameAchievements_body:
  assumes "achs \<noteq> []" and "JNull \<notin> set achs"
  shows "getGameAchievements a (Response 200 (Some (playerstats_body achs))) =
           (\<lparr>achievements = achs,
             completionRate = double_div (length (filter achieved achs)) (length achs)\<rparr>, [])"
  using assms
  by (simp add: getGameAchievements_def getGameAchievements_try_def ok_def summarise_body
      achievedCount_filter)

lemma stats_response_body:
  "stats_response flags =
     Response 200 (Some (playerstats_body
       (map (\<lambda>f. JObj [(''achieved'', JNum (of_nat f))]) flags)))"
  by (simp add: stats_response_def playerstats_body_def)

lemma stats_rate:
  assumes "flags \<noteq> []"
  shows "completionRate (fst (getGameAchievements a (stats_response flags)))
           = double_div (length (filter (\<lambda>f. f = 1) flags)) (length flags)"
proof -
  define g where "g = (\<lambda>f :: nat. JObj [(''achieved'', JNum (of_nat f))])"
  have ach: "achieved (g f) = (f = 1)" for f
    by (simp add: achieved_def g_def)
  have "JNull \<notin> set (map g flags)" by (auto simp: g_def)
  moreover have "map g flags \<noteq> []" using assms by simp
  ultimately have e1: "completionRate (fst (getGameAchievements a
        (Response 200 (Some (playerstats_body (map g flags))))))
      = double_div (length (filter achieved (map g flags))) (length (map g flags))"
    by (simp add: getGameAchievements_body)
  have "filter achieved (map g flags) = map g (filter (\<lambda>f. f = 1) flags)"
    by (simp add: filter_map comp_def ach)
  then have e2: "length (filter achieved (map g flags)) = length (filter (\<lambda>f. f = 1) flags)"
    by simp
  have sr: "stats_response flags = Response 200 (Some (playerstats_body (map g flags)))"
    by (simp add: stats_response_body g_def)
  show ?thesis unfolding sr e1 e2 by simp
qed

lemma rate_three_of_four:
  "completionRate (fst (getGameAchievements a (stats_response [1, 1, 1, 0]))) = 3 / 4"
proof -
  have e: "completionRate (fst (getGameAchievements a (stats_response [1, 1, 1, 0])))
      = double_div (length (filter (\<lambda>f. f = 1) [1, 1, 1, 0 :: nat])) (length [1, 1, 1, 0 :: nat])"
    by (rule stats_rate) simp
  have l: "length (filter (\<lambda>f. f = 1) [1, 1, 1, 0 :: nat]) = 3" "length [1, 1, 1, 0 :: nat] = 4"
    by simp_all
  show ?thesis unfolding e l by (rule d34)
qed

lemma rate_one_of_three:
  "completionRate (fst (getGameAchievements a (stats_response [1, 0, 0])))
     = 6004799503160661 / 18014398509481984"
proof -
  have e: "completionRate (fst (getGameAchievements a (stats_response [1, 0, 0])))
      = double_div (length (filter (\<lambda>f. f = 1) [1, 0, 0 :: nat])) (length [1, 0, 0 :: nat])"
    by (rule stats_rate) simp
  have l: "length (filter (\<lambda>f. f = 1) [1, 0, 0 :: nat]) = 1" "length [1, 0, 0 :: nat] = 3"
    by simp_all
  show ?thesis unfolding e l by (rule d13)
qed

lemma rate_none_of_two:
  "completionRate (fst (getGameAchievements a (stats_response [0, 0]))) = 0"
proof -
  have e: "completionRate (fst (getGameAchievements a (stats_response [0, 0])))
      = double_div (length (filter (\<lambda>f. f = 1) [0, 0 :: nat])) (length [0, 0 :: nat])"
    by (rule stats_rate) simp
  have l: "length (filter (\<lambda>f. f = 1) [0, 0 :: nat]) = 0" "length [0, 0 :: nat] = 2"
    by simp_all
  show ?thesis unfolding e l by (rule double_div_zero) simp
qed

lemma steam_env_ok: "steam env_ok a = stats_response [1, 1, 1, 0]"
  by (simp add: env_ok_def)

lemma steam_env_failing: "steam env_failing a = stats_response [1, 1, 1, 0]"
  by (simp add: env_failing_def env_ok_def)

lemma rate_env_ok: "fetched_rate env_ok a = 3 / 4"
  unfolding fetched_rate_def steam_env_ok by (rule rate_three_of_four)

lemma rate_env_failing: "fetched_rate env_failing a = 3 / 4"
  unfolding fetched_rate_def steam_env_failing by (rule rate_three_of_four)

lemma rate_env_unreachable: "fetched_rate env_unreachable a = - 1"
  by (simp add: fetched_rate_def env_unreachable_def env_ok_def getGameAchievements_def
      getGameAchievements_try_def no_stats_def)

text \<open>
  C5, amended. For the achievements array of a response: with no entry the
  completion rate is the sentinel -1 (unknown); with entries, none of them \<open>null\<close>,
  it is the double quotient of the number of entries whose \<open>achieved\<close> is 1 by the
  number of entries. That number lies between 0 and 1, is within \<open>2^-53\<close> of the
  exact ratio, and is the exact ratio whenever the total divides the count times
  \<open>2^52\<close>, so that the ratio is a double: three achieved of four give exactly 3/4.
\<close>

theorem C5_completion_rate:
  "completionRate (fst (getGameAchievements a (Response 200 (Some (playerstats_body []))))) = - 1
   \<and> (achs \<noteq> [] \<and> JNull \<notin> set achs \<longrightarrow>
        completionRate (fst (getGameAchievements a (Response 200 (Some (playerstats_body achs)))))
          = double_div (length (filter achieved achs)) (length achs)
        \<and> 0 \<le> double_div (length (filter achieved achs)) (length achs)
        \<and> double_div (length (filter achieved achs)) (length achs) \<le> 1
        \<and> \<bar>double_div (length (filter achieved achs)) (length achs)
             - of_nat (length (filter achieved achs)) / of_nat (length achs)\<bar> \<le> 1 / 2 ^ 53
        \<and> (length achs dvd length (filter achieved achs) * 2 ^ 52 \<longrightarrow>
             double_div (length (filter achieved achs)) (length achs)
               = of_nat (length (filter achieved achs)) / of_nat (length achs)))
   \<and> completionRate (fst (getGameAchievements a (stats_response [1, 1, 1, 0]))) = 3 / 4"
proof (intro conjI impI)
  show "completionRate (fst (getGameAchievements a (Response 200 (Some (playerstats_body []))))) = - 1"
    by (simp add: getGameAchievements_def getGameAchievements_try_def ok_def summarise_body
        no_stats_def)
next
  assume h: "achs \<noteq> [] \<and> JNull \<notin> set achs"
  then show "completionRate (fst (getGameAchievements a (Response 200 (Some (playerstats_body achs)))))
      = double_div (length (filter achieved achs)) (length achs)"
    by (simp add: getGameAchievements_body)
  from h have pos: "0 < length achs" by simp
  have le: "length (filter achieved achs) \<le> length achs" by simp
  from pos le show "0 \<le> double_div (length (filter achieved achs)) (length achs)"
    by (rule double_div_range(1))
  from pos le show "double_div (length (filter achieved achs)) (length achs) \<le> 1"
    by (rule double_div_range(2))
  from pos le show "\<bar>double_div (length (filter achieved achs)) (length achs)
             - of_nat (length (filter achieved achs)) / of_nat (length achs)\<bar> \<le> 1 / 2 ^ 53"
    by (rule double_div_near)
  {
    assume "length achs dvd length (filter achieved achs) * 2 ^ 52"
    with pos le show "double_div (length (filter achieved achs)) (length achs)
               = of_nat (length (filter achieved achs)) / of_nat (length achs)"
      by (rule double_div_exact)
  }
next
  show "completionRate (fst (getGameAchievements a (stats_response [1, 1, 1, 0]))) = 3 / 4"
    by (rule rate_three_of_four)
qed

theorem C5_completion_rate_witness:
  "[JObj [(''achieved'', JNum 1)], JObj [(''achieved'', JNum 0)]] \<noteq> []
   \<and> JNull \<notin> set [JObj [(''achieved'', JNum 1)], JObj [(''achieved'', JNum 0)]]
   \<and> length [JObj [(''achieved'', JNum 1)], JObj [(''achieved'', JNum 0)]]
       dvd length (filter achieved [JObj [(''achieved'', JNum 1)], JObj [(''achieved'', JNum 0)]])
           * 2 ^ 52
   \<and> completionRate (fst (getGameAchievements 10 (Response 200 (Some (playerstats_body
        [JObj [(''achieved'', JNum 1)], JObj [(''achieved'', JNum 0)]]))))) = 1 / 2"
proof -
  have l: "length (filter achieved [JObj [(''achieved'', JNum 1)], JObj [(''achieved'', JNum 0)]]) = 1"
      "length [JObj [(''achieved'', JNum 1)], JObj [(''achieved'', JNum 0)]] = 2"
    by (simp_all add: achieved_def)
  have dv: "(2 :: nat) dvd 1 * 2 ^ 52" by simp
  show ?thesis
    using C5_completion_rate [of 10 "[JObj [(''achieved'', JNum 1)], JObj [(''achieved'', JNum 0)]]"]
    unfolding l by (simp add: dv)
qed

text \<open>
  The claim as stated fails where the ratio is not a double: one achieved of three
  gives 6004799503160661 / 2^54, the double printed as 0.3333333333333333, and not
  the rational 1/3.
\<close>

theorem C5_one_of_three_is_rounded:
  "completionRate (fst (getGameAchievements 10 (stats_response [1, 0, 0])))
     = 6004799503160661 / 18014398509481984
   \<and> completionRate (fst (getGameAchievements 10 (stats_response [1, 0, 0])))
     \<noteq> of_nat (length (filter (\<lambda>f. f = 1) [1, 0, 0 :: nat])) / of_nat (length [1, 0, 0 :: nat])"
  unfolding rate_one_of_three by simp

section \<open>Effects of the requests\<close>

lemma fetchAchievements_eq:
  "fetchAchievements e a w =
     (fst (getGameAchievements a (steam e a)),
      w\<lparr>fetched := fetched w @ [a],
        console := console w @ snd (getGameAchievements a (steam e a))\<rparr>)"
  by (simp add: fetchAchievements_def split: prod.splits)

lemma notionApiRequest_sent: "sent (snd (notionApiRequest e req w)) = sent w @ [req]"
  by (simp add: notionApiRequest_def Let_def split: notion_response.splits)

lemma notionApiRequest_fetched: "fetched (snd (notionApiRequest e req w)) = fetched w"
  by (simp add: notionApiRequest_def Let_def split: notion_response.splits)

lemma updatePage_sent: "sent (snd (updatePage e pid d w)) = sent w @ [UpdatePage pid d]"
  by (simp add: updatePage_def notionApiRequest_sent)

lemma updatePage_fetched: "fetched (snd (updatePage e pid d w)) = fetched w"
  by (simp add: updatePage_def notionApiRequest_fetched)

lemma createPage_sent: "sent (snd (createPage e ps c w)) = sent w @ [CreatePage ps c]"
  by (simp add: createPage_def notionApiRequest_sent)

lemma createPage_fetched: "fetched (snd (createPage e ps c w)) = fetched w"
  by (simp add: createPage_def notionApiRequest_fetched)

lemma propertiesToUpdate_same_playtime:
  assumes "number (properties page) ''play_time'' = Val (JNum (of_nat (playtime_forever game)))"
  shows "propertiesToUpdate e game page w =
     (case title_content (properties page) of
        Inl err \<Rightarrow> (Inl err, w)
      | Inr c \<Rightarrow>
          (Inr (if c \<noteq> Some (name game) then [(''name'', Title_prop [Some (name game)])] else []),
           w))"
  using assms by (simp add: propertiesToUpdate_def Let_def split: sum.splits)

lemma propertiesToUpdate_new_playtime:
  assumes "number (properties page) ''play_time'' \<noteq> Val (JNum (of_nat (playtime_forever game)))"
      and "title_content (properties page) = Inr c"
  shows "propertiesToUpdate e game page w =
     (Inr ((if c \<noteq> Some (name game) then [(''name'', Title_prop [Some (name game)])] else [])
           @ [(''play_time'', Number_prop (Some (of_nat (playtime_forever game))))]
           @ (if fetched_rate e (appid game) \<noteq> - 1 \<and>
                 number (properties page) ''achievement''
                   \<noteq> Val (JNum (fetched_rate e (appid game)))
              then [(''achievement'', Number_prop (Some (fetched_rate e (appid game))))]
              else [])),
      w\<lparr>fetched := fetched w @ [appid game],
        console := console w @ snd (getGameAchievements (appid game) (steam e (appid game)))\<rparr>)"
  using assms by (simp add: propertiesToUpdate_def Let_def fetchAchievements_eq fetched_rate_def)

lemma propertiesToUpdate_sent: "sent (snd (propertiesToUpdate e game page w)) = sent w"
  by (simp add: propertiesToUpdate_def Let_def fetchAchievements_eq split: sum.splits)

lemma createNewGamePage_sent:
  "sent (snd (createNewGamePage e game w)) =
     sent w @ [CreatePage
       ([(''appid'', Number_prop (Some (of_nat (appid game)))),
         (''name'', Title_prop [Some (name game)]),
         (''play_time'', Number_prop (Some (of_nat (playtime_forever game))))]
        @ (if fetched_rate e (appid game) \<noteq> - 1
           then [(''achievement'', Number_prop (Some (fetched_rate e (appid game))))] else []))
       (cover_url (appid game))]"
  by (simp add: createNewGamePage_def fetchAchievements_eq createPage_sent fetched_rate_def)

lemma createNewGamePage_fetched:
  "fetched (snd (createNewGamePage e game w)) = fetched w @ [appid game]"
  by (simp add: createNewGamePage_def fetchAchievements_eq createPage_fetched)

lemma updateExistingGamePage_sent:
  "sent (snd (updateExistingGamePage e game page w)) =
     (case fst (propertiesToUpdate e game page w) of
        Inl err \<Rightarrow> sent w
      | Inr delta \<Rightarrow> if delta = [] then sent w else sent w @ [UpdatePage (page_id page) delta])"
  by (simp add: updateExistingGamePage_def case_prod_beta updatePage_sent propertiesToUpdate_sent
      split: sum.splits)

lemma updateExistingGamePage_fetched:
  "fetched (snd (updateExistingGamePage e game page w))
     = fetched (snd (propertiesToUpdate e game page w))"
  by (simp add: updateExistingGamePage_def case_prod_beta updatePage_fetched split: sum.splits)

lemma sync_game_sent:
  "sent (sync_game e m w game) =
     (case m (of_nat (appid game)) of
        Some page \<Rightarrow> sent (snd (updateExistingGamePage e game page w))
      | None \<Rightarrow> sent (snd (createNewGamePage e game w)))"
  by (simp add: sync_game_def case_prod_beta split: sum.splits option.splits)

lemma sync_game_fetched:
  "fetched (sync_game e m w game) =
     (case m (of_nat (appid game)) of
        Some page \<Rightarrow> fetched (snd (updateExistingGamePage e game page w))
      | None \<Rightarrow> fetched (snd (createNewGamePage e game w)))"
  by (simp add: sync_game_def case_prod_beta split: sum.splits option.splits)

lemma sync_game_sent_grows: "\<exists>reqs. sent (sync_game e m w game) = sent w @ reqs"
  by (simp add: sync_game_sent updateExistingGamePage_sent createNewGamePage_sent
      split: option.splits sum.splits)

lemma foldl_sync_game_sent_grows: "\<exists>reqs. sent (foldl (sync_game e m) w games) = sent w @ reqs"
proof (induction games arbitrary: w)
  case Nil
  then show ?case by simp
next
  case (Cons g games)
  obtain r1 where r1: "sent (sync_game e m w g) = sent w @ r1"
    using sync_game_sent_grows by blast
  obtain r2 where "sent (foldl (sync_game e m) (sync_game e m w g) games)
      = sent (sync_game e m w g) @ r2"
    using Cons.IH by blast
  with r1 show ?case by simp
qed

lemma syncSteamGamesToNotion_sent:
  "sent (syncSteamGamesToNotion e steamGames w) =
     sent (foldl (sync_game e (notionAppIdMap (database w)))
       (w\<lparr>console := console w @
          [Log_starting, Log_found (length steamGames) (length (database w))]\<rparr>) steamGames)"
  by (simp add: syncSteamGamesToNotion_def Let_def)

lemma syncSteamGamesToNotion_database:
  "database (syncSteamGamesToNotion e steamGames w) =
     database (foldl (sync_game e (notionAppIdMap (database w)))
       (w\<lparr>console := console w @
          [Log_starting, Log_found (length steamGames) (length (database w))]\<rparr>) steamGames)"
  by (simp add: syncSteamGamesToNotion_def Let_def)

lemma syncSteamGamesToNotion_fetched:
  "fetched (syncSteamGamesToNotion e steamGames w) =
     fetched (foldl (sync_game e (notionAppIdMap (database w)))
       (w\<lparr>console := console w @
          [Log_starting, Log_found (length steamGames) (length (database w))]\<rparr>) steamGames)"
  by (simp add: syncSteamGamesToNotion_def Let_def)

lemma propertiesToUpdate_fst:
  "fst (propertiesToUpdate e game page w) = fst (propertiesToUpdate e game page w')"
  by (simp add: propertiesToUpdate_def Let_def fetchAchievements_eq split: sum.splits)

lemma propertiesToUpdate_fetched:
  "fetched (snd (propertiesToUpdate e game page w)) =
     fetched w @ fetched (snd (propertiesToUpdate e game page (world0 [])))"
  by (simp add: propertiesToUpdate_def Let_def fetchAchievements_eq world0_def split: sum.splits)

lemma sync_game_sent_step:
  "sent (sync_game e m w game) = sent w @ sent (sync_game e m (world0 []) game)"
proof (cases "m (of_nat (appid game))")
  case None
  then show ?thesis by (simp add: sync_game_sent createNewGamePage_sent world0_def)
next
  case (Some page)
  have "fst (propertiesToUpdate e game page w) = fst (propertiesToUpdate e game page (world0 []))"
    by (rule propertiesToUpdate_fst)
  with Some show ?thesis
    by (simp add: sync_game_sent updateExistingGamePage_sent world0_def split: sum.splits)
qed

lemma sync_game_fetched_step:
  "fetched (sync_game e m w game) = fetched w @ fetched (sync_game e m (world0 []) game)"
proof (cases "m (of_nat (appid game))")
  case None
  then show ?thesis by (simp add: sync_game_fetched createNewGamePage_fetched world0_def)
next
  case (Some page)
  then show ?thesis
    using propertiesToUpdate_fetched [of e game page w]
    by (simp add: sync_game_fetched updateExistingGamePage_fetched)
qed

lemma foldl_sync_game_sent:
  "sent (foldl (sync_game e m) w games) =
     sent w @ concat (map (\<lambda>g. sent (sync_game e m (world0 []) g)) games)"
proof (induction games arbitrary: w)
  case Nil
  then show ?case by simp
next
  case (Cons g games)
  have "sent (foldl (sync_game e m) (sync_game e m w g) games) =
     sent (sync_game e m w g) @ concat (map (\<lambda>g. sent (sync_game e m (world0 []) g)) games)"
    by (rule Cons.IH)
  then show ?case using sync_game_sent_step [of e m w g] by simp
qed

lemma foldl_sync_game_fetched:
  "fetched (foldl (sync_game e m) w games) =
     fetched w @ concat (map (\<lambda>g. fetched (sync_game e m (world0 []) g)) games)"
proof (induction games arbitrary: w)
  case Nil
  then show ?case by simp
next
  case (Cons g games)
  have "fetched (foldl (sync_game e m) (sync_game e m w g) games) =
     fetched (sync_game e m w g) @ concat (map (\<lambda>g. fetched (sync_game e m (world0 []) g)) games)"
    by (rule Cons.IH)
  then show ?case using sync_game_fetched_step [of e m w g] by simp
qed

lemma run_sent:
  "sent (syncSteamGamesToNotion e steamGames w) =
     sent w @ concat (map (\<lambda>g. sent (sync_game e (notionAppIdMap (database w)) (world0 []) g))
                        steamGames)"
  by (simp add: syncSteamGamesToNotion_sent foldl_sync_game_sent)

lemma run_fetched:
  "fetched (syncSteamGamesToNotion e steamGames w) =
     fetched w @ concat (map (\<lambda>g. fetched (sync_game e (notionAppIdMap (database w)) (world0 []) g))
                        steamGames)"
  by (simp add: syncSteamGamesToNotion_fetched foldl_sync_game_fetched)

lemma sync_game_fetched_subset: "set (fetched (sync_game e m (world0 []) game)) \<subseteq> {appid game}"
  by (auto simp: sync_game_fetched updateExistingGamePage_fetched createNewGamePage_fetched
      propertiesToUpdate_def Let_def fetchAchievements_eq world0_def
      split: option.splits sum.splits if_splits)

lemma sync_game_in_sync:
  assumes "m (of_nat (appid game)) = Some page" and "in_sync game page"
  shows "sync_game e m w game = w"
  using assms
  by (simp add: sync_game_def updateExistingGamePage_def in_sync_def
      propertiesToUpdate_same_playtime)

section \<open>The fetch never raises\<close>

text \<open>
  C7. \<open>getGameAchievements\<close> returns a result and never an exception: every
  exception of its \<open>try\<close> block ends in the sentinel -1, and so do a status 400, an
  unreachable endpoint, every other failure status and a body that does not parse.
  When the playtime of a matched game changed and the fetch failed, the update is
  still sent, with the playtime (and the title when it differs).
\<close>

theorem C7_fetch_never_raises:
  "(\<forall>err out. getGameAchievements_try a r = (Inl err, out) \<longrightarrow>
       fst (getGameAchievements a r) = no_stats)
   \<and> completionRate no_stats = - 1
   \<and> fst (getGameAchievements a (Response 400 body)) = no_stats
   \<and> fst (getGameAchievements a Unreachable) = no_stats
   \<and> (\<not> ok status \<longrightarrow> fst (getGameAchievements a (Response status body)) = no_stats)
   \<and> fst (getGameAchievements a (Response status None)) = no_stats
   \<and> (title_content (properties page) = Inr c
        \<and> number (properties page) ''play_time'' \<noteq> Val (JNum (of_nat (playtime_forever game)))
        \<and> fst (getGameAchievements_try (appid game) (steam e (appid game))) = Inl err' \<longrightarrow>
      sent (snd (updateExistingGamePage e game page w)) =
        sent w @ [UpdatePage (page_id page)
          ((if c \<noteq> Some (name game) then [(''name'', Title_prop [Some (name game)])] else [])
           @ [(''play_time'', Number_prop (Some (of_nat (playtime_forever game))))])])"
proof (intro conjI impI allI)
  fix err out
  assume "getGameAchievements_try a r = (Inl err, out)"
  then show "fst (getGameAchievements a r) = no_stats"
    by (simp add: getGameAchievements_def)
next
  show "completionRate no_stats = - 1" by (simp add: no_stats_def)
next
  show "fst (getGameAchievements a (Response 400 body)) = no_stats"
    by (simp add: getGameAchievements_def getGameAchievements_try_def ok_def Let_def)
next
  show "fst (getGameAchievements a Unreachable) = no_stats"
    by (simp add: getGameAchievements_def getGameAchievements_try_def)
next
  assume "\<not> ok status"
  then show "fst (getGameAchievements a (Response status body)) = no_stats"
    by (simp add: getGameAchievements_def getGameAchievements_try_def Let_def)
next
  show "fst (getGameAchievements a (Response status None)) = no_stats"
    by (simp add: getGameAchievements_def getGameAchievements_try_def Let_def)
next
  assume h: "title_content (properties page) = Inr c
     \<and> number (properties page) ''play_time'' \<noteq> Val (JNum (of_nat (playtime_forever game)))
     \<and> fst (getGameAchievements_try (appid game) (steam e (appid game))) = Inl err'"
  then have "fst (getGameAchievements (appid game) (steam e (appid game))) = no_stats"
    by (simp add: getGameAchievements_def case_prod_beta)
  then have "fetched_rate e (appid game) = - 1"
    by (simp add: fetched_rate_def no_stats_def)
  with h show "sent (snd (updateExistingGamePage e game page w)) =
        sent w @ [UpdatePage (page_id page)
          ((if c \<noteq> Some (name game) then [(''name'', Title_prop [Some (name game)])] else [])
           @ [(''play_time'', Number_prop (Some (of_nat (playtime_forever game))))])]"
    by (simp add: updateExistingGamePage_sent propertiesToUpdate_new_playtime)
qed

theorem C7_fetch_never_raises_witness:
  "getGameAchievements_try 20 Unreachable = (Inl NetworkError, [])
   \<and> fst (getGameAchievements 20 Unreachable) = no_stats
   \<and> \<not> ok 500
   \<and> fst (getGameAchievements 20 (Response 500 None)) = no_stats
   \<and> title_content (properties page_b) = Inr (Some ''Game B'')
   \<and> number (properties page_b) ''play_time'' \<noteq> Val (JNum (of_nat (playtime_forever game_b)))
   \<and> fst (getGameAchievements_try (appid game_b) (steam env_unreachable (appid game_b)))
       = Inl NetworkError
   \<and> sent (snd (updateExistingGamePage env_unreachable game_b page_b (world0 [page_b]))) =
       [UpdatePage ''page-b'' [(''play_time'', Number_prop (Some 500))]]"
  using C7_fetch_never_raises [where a = 20 and r = Unreachable and status = 500
      and body = None and page = page_b and c = "Some ''Game B''" and game = game_b
      and e = env_unreachable and err' = NetworkError and w = "world0 [page_b]"]
  by (simp add: getGameAchievements_try_def ok_def title_content_def number_def page_b_def
      game_b_def env_unreachable_def env_ok_def world0_def)

section \<open>The index of the Notion pages\<close>

lemma number_cases:
  "number props k = Undefined \<or> number props k = Val JNull
   \<or> (\<exists>n. number props k = Val (JNum n))"
  by (auto simp: number_def split: option.splits property.splits)

lemma index_page_apply:
  "index_page m p n = (if n \<noteq> 0 \<and> has_appid n p then Some p else m n)"
  using number_cases [of "properties p" "''appid''"]
  by (auto simp: index_page_def has_appid_def Let_def)

lemma foldl_index_page:
  "foldl index_page m ps n =
     (if n = 0 then m n
      else case List.find (has_appid n) (rev ps) of None \<Rightarrow> m n | Some p \<Rightarrow> Some p)"
  by (induction ps rule: rev_induct) (auto simp: index_page_apply)

lemma notionAppIdMap_find:
  "notionAppIdMap ps n = (if n = 0 then None else List.find (has_appid n) (rev ps))"
  by (simp add: notionAppIdMap_def foldl_index_page split: option.splits)

text \<open>
  C6, amended. The index maps a number other than 0 to the last page of the
  sequence that carries it as its \<open>appid\<close>, and maps nothing else. Adding a page
  whose \<open>appid\<close> is missing, \<open>null\<close> or 0 leaves the index as it is; adding a page
  whose \<open>appid\<close> is a number other than 0 inserts or overwrites the entry of that
  number.
\<close>

theorem C6_index_last_wins:
  "notionAppIdMap pages n = (if n = 0 then None else List.find (has_appid n) (rev pages))
   \<and> (\<not> truthy (number (properties p) ''appid'') \<longrightarrow>
        notionAppIdMap (pages @ [p]) = notionAppIdMap pages)
   \<and> (number (properties p) ''appid'' = Val (JNum k) \<and> k \<noteq> 0 \<longrightarrow>
        notionAppIdMap (pages @ [p]) = (notionAppIdMap pages)(k \<mapsto> p))"
  by (simp add: notionAppIdMap_find) (simp add: notionAppIdMap_def index_page_def)

theorem C6_index_last_wins_witness:
  "\<not> truthy (number (properties \<lparr>page_id = ''blank'', properties = Map.empty\<rparr>) ''appid'')
   \<and> notionAppIdMap ([page_b] @ [\<lparr>page_id = ''blank'', properties = Map.empty\<rparr>])
       = notionAppIdMap [page_b]
   \<and> number (properties (page_b\<lparr>page_id := ''page-b2''\<rparr>)) ''appid'' = Val (JNum 20)
   \<and> (20 :: rat) \<noteq> 0
   \<and> notionAppIdMap ([page_b] @ [page_b\<lparr>page_id := ''page-b2''\<rparr>]) 20
       = Some (page_b\<lparr>page_id := ''page-b2''\<rparr>)"
  using C6_index_last_wins [where pages = "[page_b]" and n = 20
      and p = "\<lparr>page_id = ''blank'', properties = Map.empty\<rparr>"]
    C6_index_last_wins [where pages = "[page_b]" and n = 20 and k = 20
      and p = "page_b\<lparr>page_id := ''page-b2''\<rparr>"]
  by (simp add: number_def page_b_def)

text \<open>
  The claim as stated fails for the identifier 0: a page whose \<open>appid\<close> is present
  and equal to 0 is not entered into the index.
\<close>

theorem C6_present_zero_not_inserted:
  "number (properties \<lparr>page_id = ''zero'',
      properties = [''appid'' \<mapsto> Number_prop (Some 0)]\<rparr>) ''appid'' = Val (JNum 0)
   \<and> notionAppIdMap ([] @ [\<lparr>page_id = ''zero'',
        properties = [''appid'' \<mapsto> Number_prop (Some 0)]\<rparr>]) 0 = None
   \<and> notionAppIdMap ([] @ [\<lparr>page_id = ''zero'',
        properties = [''appid'' \<mapsto> Number_prop (Some 0)]\<rparr>]) = notionAppIdMap []
   \<and> \<not> (\<forall>pages p k. number (properties p) ''appid'' = Val (JNum k) \<longrightarrow>
           notionAppIdMap (pages @ [p]) k = Some p)"
proof (intro conjI)
  show present: "number (properties \<lparr>page_id = ''zero'',
      properties = [''appid'' \<mapsto> Number_prop (Some 0)]\<rparr>) ''appid'' = Val (JNum 0)"
    by (simp add: number_def)
  show absent: "notionAppIdMap ([] @ [\<lparr>page_id = ''zero'',
        properties = [''appid'' \<mapsto> Number_prop (Some 0)]\<rparr>]) 0 = None"
    by (simp add: notionAppIdMap_find)
  show "notionAppIdMap ([] @ [\<lparr>page_id = ''zero'',
        properties = [''appid'' \<mapsto> Number_prop (Some 0)]\<rparr>]) = notionAppIdMap []"
    by (simp add: notionAppIdMap_def index_page_def number_def)
  show "\<not> (\<forall>pages p k. number (properties p) ''appid'' = Val (JNum k) \<longrightarrow>
           notionAppIdMap (pages @ [p]) k = Some p)"
  proof
    assume "\<forall>pages p k. number (properties p) ''appid'' = Val (JNum k) \<longrightarrow>
           notionAppIdMap (pages @ [p]) k = Some p"
    with present have "notionAppIdMap ([] @ [\<lparr>page_id = ''zero'',
          properties = [''appid'' \<mapsto> Number_prop (Some 0)]\<rparr>]) 0
        = Some \<lparr>page_id = ''zero'', properties = [''appid'' \<mapsto> Number_prop (Some 0)]\<rparr>"
      by blast
    with absent show False by simp
  qed
qed

text \<open>
  C10. A page whose \<open>appid\<close> is the number 0 is skipped by the index builder, so the
  index of any page list has no entry for 0. A game with appid 0 is therefore
  handled by \<open>createNewGamePage\<close>, whatever pages exist: its step sends one create
  request, and that request is among the writes of every run that has the game.
\<close>

theorem C10_zero_appid_always_created:
  "(number (properties p) ''appid'' = Val (JNum 0) \<longrightarrow> index_page m p = m)
   \<and> notionAppIdMap pages 0 = None
   \<and> (appid game = 0 \<longrightarrow>
        sent (sync_game e (notionAppIdMap pages) w game) =
          sent w @ [CreatePage
            ([(''appid'', Number_prop (Some 0)),
              (''name'', Title_prop [Some (name game)]),
              (''play_time'', Number_prop (Some (of_nat (playtime_forever game))))]
             @ (if fetched_rate e 0 \<noteq> - 1
                then [(''achievement'', Number_prop (Some (fetched_rate e 0)))] else []))
            (cover_url 0)])
   \<and> (appid game = 0 \<and> game \<in> set steamGames \<longrightarrow>
        CreatePage
            ([(''appid'', Number_prop (Some 0)),
              (''name'', Title_prop [Some (name game)]),
              (''play_time'', Number_prop (Some (of_nat (playtime_forever game))))]
             @ (if fetched_rate e 0 \<noteq> - 1
                then [(''achievement'', Number_prop (Some (fetched_rate e 0)))] else []))
            (cover_url 0)
          \<in> set (sent (syncSteamGamesToNotion e steamGames w)))"
proof (intro conjI impI)
  assume "number (properties p) ''appid'' = Val (JNum 0)"
  then show "index_page m p = m" by (simp add: index_page_def)
next
  show none: "notionAppIdMap pages 0 = None" by (simp add: notionAppIdMap_find)
  {
    fix m :: "rat \<rightharpoonup> page" and w'
    assume "appid game = 0" and "m 0 = None"
    then have "sent (sync_game e m w' game) =
          sent w' @ [CreatePage
            ([(''appid'', Number_prop (Some 0)),
              (''name'', Title_prop [Some (name game)]),
              (''play_time'', Number_prop (Some (of_nat (playtime_forever game))))]
             @ (if fetched_rate e 0 \<noteq> - 1
                then [(''achievement'', Number_prop (Some (fetched_rate e 0)))] else []))
            (cover_url 0)]"
      by (simp add: sync_game_sent createNewGamePage_sent)
  } note step = this
  {
    assume "appid game = 0"
    then show "sent (sync_game e (notionAppIdMap pages) w game) =
          sent w @ [CreatePage
            ([(''appid'', Number_prop (Some 0)),
              (''name'', Title_prop [Some (name game)]),
              (''play_time'', Number_prop (Some (of_nat (playtime_forever game))))]
             @ (if fetched_rate e 0 \<noteq> - 1
                then [(''achievement'', Number_prop (Some (fetched_rate e 0)))] else []))
            (cover_url 0)]"
      using none by (rule step)
  }
  {
    assume h: "appid game = 0 \<and> game \<in> set steamGames"
    then obtain gs1 gs2 where split: "steamGames = gs1 @ game # gs2"
      by (meson split_list)
    define m where "m = notionAppIdMap (database w)"
    define w1 where "w1 = w\<lparr>console := console w @
        [Log_starting, Log_found (length steamGames) (length (database w))]\<rparr>"
    define w2 where "w2 = foldl (sync_game e m) w1 gs1"
    have m0: "m 0 = None" by (simp add: m_def notionAppIdMap_find)
    have "foldl (sync_game e m) w1 steamGames
        = foldl (sync_game e m) (sync_game e m w2 game) gs2"
      by (simp add: split w2_def)
    moreover obtain reqs where
      "sent (foldl (sync_game e m) (sync_game e m w2 game) gs2)
        = sent (sync_game e m w2 game) @ reqs"
      using foldl_sync_game_sent_grows by blast
    ultimately have "set (sent (sync_game e m w2 game))
        \<subseteq> set (sent (foldl (sync_game e m) w1 steamGames))"
      by simp
    moreover have "sent (syncSteamGamesToNotion e steamGames w)
        = sent (foldl (sync_game e m) w1 steamGames)"
      by (simp add: syncSteamGamesToNotion_def Let_def m_def w1_def)
    ultimately show "CreatePage
            ([(''appid'', Number_prop (Some 0)),
              (''name'', Title_prop [Some (name game)]),
              (''play_time'', Number_prop (Some (of_nat (playtime_forever game))))]
             @ (if fetched_rate e 0 \<noteq> - 1
                then [(''achievement'', Number_prop (Some (fetched_rate e 0)))] else []))
            (cover_url 0)
          \<in> set (sent (syncSteamGamesToNotion e steamGames w))"
      using step [of m w2] h m0 by auto
  }
qed

theorem C10_zero_appid_always_created_witness:
  "number (properties \<lparr>page_id = ''zero'',
      properties = [''appid'' \<mapsto> Number_prop (Some 0)]\<rparr>) ''appid'' = Val (JNum 0)
   \<and> index_page Map.empty \<lparr>page_id = ''zero'',
        properties = [''appid'' \<mapsto> Number_prop (Some 0)]\<rparr> = Map.empty
   \<and> appid (game_a\<lparr>appid := 0\<rparr>) = 0
   \<and> game_a\<lparr>appid := 0\<rparr> \<in> set [game_a\<lparr>appid := 0\<rparr>]
   \<and> CreatePage
        [(''appid'', Number_prop (Some 0)),
         (''name'', Title_prop [Some ''Game A'']),
         (''play_time'', Number_prop (Some 120))]
        ''https://cdn.akamai.steamstatic.com/steam/apps/0/header.jpg''
       \<in> set (sent (syncSteamGamesToNotion env_unreachable [game_a\<lparr>appid := 0\<rparr>]
            (world0 [\<lparr>page_id = ''zero'',
               properties = [''appid'' \<mapsto> Number_prop (Some 0)]\<rparr>])))"
  using C10_zero_appid_always_created [where game = "game_a\<lparr>appid := 0\<rparr>"
      and p = "\<lparr>page_id = ''zero'', properties = [''appid'' \<mapsto> Number_prop (Some 0)]\<rparr>"
      and m = Map.empty and e = env_unreachable and steamGames = "[game_a\<lparr>appid := 0\<rparr>]"
      and w = "world0 [\<lparr>page_id = ''zero'',
               properties = [''appid'' \<mapsto> Number_prop (Some 0)]\<rparr>]"]
  by (simp add: number_def game_a_def fetched_rate_def env_unreachable_def env_ok_def
      getGameAchievements_def getGameAchievements_try_def no_stats_def cover_url_def
      string_of_nat.simps)

section \<open>Matched games: the update\<close>

text \<open>
  C1. For a game matched to a page whose \<open>play_time\<close> equals the game's playtime, the
  step of the loop sends no request to the achievements endpoint. When in addition
  the title read from the page differs from the game's name, the delta is exactly
  the \<open>name\<close> entry, and it is what the update request carries. In a run over games
  with distinct appids, the appid of such a game is not among the achievements
  requested by the run.
\<close>

theorem C1_same_playtime_no_fetch:
  "(m (of_nat (appid game)) = Some page
    \<and> number (properties page) ''play_time'' = Val (JNum (of_nat (playtime_forever game))) \<longrightarrow>
      fetched (sync_game e m w game) = fetched w
      \<and> (\<forall>c. title_content (properties page) = Inr c \<and> c \<noteq> Some (name game) \<longrightarrow>
           propertiesToUpdate e game page w = (Inr [(''name'', Title_prop [Some (name game)])], w)
           \<and> sent (sync_game e m w game) =
               sent w @ [UpdatePage (page_id page) [(''name'', Title_prop [Some (name game)])]]))
   \<and> (game \<in> set steamGames \<and> distinct (map appid steamGames)
       \<and> notionAppIdMap (database w) (of_nat (appid game)) = Some page
       \<and> number (properties page) ''play_time'' = Val (JNum (of_nat (playtime_forever game)))
       \<and> appid game \<notin> set (fetched w) \<longrightarrow>
      appid game \<notin> set (fetched (syncSteamGamesToNotion e steamGames w)))"
proof (intro conjI impI)
  assume "m (of_nat (appid game)) = Some page
    \<and> number (properties page) ''play_time'' = Val (JNum (of_nat (playtime_forever game)))"
  then show "fetched (sync_game e m w game) = fetched w"
    by (simp add: sync_game_fetched updateExistingGamePage_fetched
        propertiesToUpdate_same_playtime split: sum.splits)
next
  assume "m (of_nat (appid game)) = Some page
    \<and> number (properties page) ''play_time'' = Val (JNum (of_nat (playtime_forever game)))"
  then show "\<forall>c. title_content (properties page) = Inr c \<and> c \<noteq> Some (name game) \<longrightarrow>
           propertiesToUpdate e game page w = (Inr [(''name'', Title_prop [Some (name game)])], w)
           \<and> sent (sync_game e m w game) =
               sent w @ [UpdatePage (page_id page) [(''name'', Title_prop [Some (name game)])]]"
    by (auto simp: sync_game_sent updateExistingGamePage_sent propertiesToUpdate_same_playtime)
next
  assume h: "game \<in> set steamGames \<and> distinct (map appid steamGames)
       \<and> notionAppIdMap (database w) (of_nat (appid game)) = Some page
       \<and> number (properties page) ''play_time'' = Val (JNum (of_nat (playtime_forever game)))
       \<and> appid game \<notin> set (fetched w)"
  define m0 where "m0 = notionAppIdMap (database w)"
  have none: "fetched (sync_game e m0 (world0 []) game) = []"
    using h by (simp add: m0_def sync_game_fetched updateExistingGamePage_fetched
        propertiesToUpdate_same_playtime world0_def split: sum.splits)
  show "appid game \<notin> set (fetched (syncSteamGamesToNotion e steamGames w))"
  proof
    assume "appid game \<in> set (fetched (syncSteamGamesToNotion e steamGames w))"
    with h obtain g where g: "g \<in> set steamGames"
        "appid game \<in> set (fetched (sync_game e m0 (world0 []) g))"
      by (auto simp: run_fetched m0_def)
    then have "appid g = appid game"
      using sync_game_fetched_subset [of e m0 g] by auto
    with g(1) h have "g = game"
      by (meson distinct_map inj_on_def)
    with g(2) none show False by simp
  qed
qed

theorem C1_same_playtime_no_fetch_witness:
  "notionAppIdMap [page_b] (of_nat (appid (game_c\<lparr>name := ''Game B Deluxe''\<rparr>))) = Some page_b
   \<and> number (properties page_b) ''play_time''
       = Val (JNum (of_nat (playtime_forever (game_c\<lparr>name := ''Game B Deluxe''\<rparr>))))
   \<and> title_content (properties page_b) = Inr (Some ''Game B'')
   \<and> Some ''Game B'' \<noteq> Some (name (game_c\<lparr>name := ''Game B Deluxe''\<rparr>))
   \<and> fetched (sync_game env_ok (notionAppIdMap [page_b]) (world0 [page_b])
        (game_c\<lparr>name := ''Game B Deluxe''\<rparr>)) = []
   \<and> sent (sync_game env_ok (notionAppIdMap [page_b]) (world0 [page_b])
        (game_c\<lparr>name := ''Game B Deluxe''\<rparr>))
       = [UpdatePage ''page-b'' [(''name'', Title_prop [Some ''Game B Deluxe''])]]
   \<and> game_c\<lparr>name := ''Game B Deluxe''\<rparr> \<in> set [game_a, game_c\<lparr>name := ''Game B Deluxe''\<rparr>]
   \<and> distinct (map appid [game_a, game_c\<lparr>name := ''Game B Deluxe''\<rparr>])
   \<and> appid (game_c\<lparr>name := ''Game B Deluxe''\<rparr>) \<notin> set (fetched (world0 [page_b]))
   \<and> 20 \<notin> set (fetched (syncSteamGamesToNotion env_ok
        [game_a, game_c\<lparr>name := ''Game B Deluxe''\<rparr>] (world0 [page_b])))"
  using C1_same_playtime_no_fetch [where m = "notionAppIdMap [page_b]" and page = page_b
      and game = "game_c\<lparr>name := ''Game B Deluxe''\<rparr>"
      and e = env_ok and w = "world0 [page_b]"
      and steamGames = "[game_a, game_c\<lparr>name := ''Game B Deluxe''\<rparr>]"]
  by (simp add: notionAppIdMap_find has_appid_def number_def title_content_def page_b_def
      game_c_def game_a_def world0_def)

lemma patch_other: "k \<notin> fst ` set delta \<Longrightarrow> patch props delta k = props k"
  by (induction delta arbitrary: props) auto

lemma summarise_range:
  "fst (summarise a data) = Inr res \<Longrightarrow>
     completionRate res = - 1 \<or> (0 \<le> completionRate res \<and> completionRate res \<le> 1)"
proof -
  assume h: "fst (summarise a data) = Inr res"
  {
    fix list :: "json list" and n
    assume "list \<noteq> []" and "achievedCount list = Inr n"
    then have "0 < length list" and "n \<le> length list"
      using achievedCount_le by auto
    then have "0 \<le> double_div n (length list) \<and> double_div n (length list) \<le> 1"
      using double_div_range by blast
  } note bounds = this
  from h show ?thesis
    by (auto simp: summarise_def Let_def no_stats_def
        split: sum.splits if_splits jsval.splits json.splits dest: bounds)
qed

lemma fetched_rate_range:
  "fetched_rate e a = - 1 \<or> (0 \<le> fetched_rate e a \<and> fetched_rate e a \<le> 1)"
proof (cases "getGameAchievements_try a (steam e a)")
  case (Pair r out)
  show ?thesis
  proof (cases r)
    case (Inl err)
    with Pair show ?thesis
      by (simp add: fetched_rate_def getGameAchievements_def no_stats_def)
  next
    case (Inr res)
    with Pair have eq: "fetched_rate e a = completionRate res"
      by (simp add: fetched_rate_def getGameAchievements_def)
    have "res = no_stats \<or> (\<exists>data. fst (summarise a data) = Inr res)"
    proof (cases "steam e a")
      case Unreachable
      with Pair Inr show ?thesis by (simp add: getGameAchievements_try_def)
    next
      case (Response status body)
      show ?thesis
      proof (cases "ok status")
        case False
        with Pair Inr Response show ?thesis
          by (auto simp: getGameAchievements_try_def Let_def split: if_splits)
      next
        case True
        with Pair Inr Response obtain data where "summarise a data = (Inr res, out)"
          by (auto simp: getGameAchievements_try_def split: option.splits)
        then have "fst (summarise a data) = Inr res" by simp
        then show ?thesis by blast
      qed
    qed
    then show ?thesis
      unfolding eq using summarise_range by (auto simp: no_stats_def)
  qed
qed

text \<open>
  C2. For a matched game whose playtime differs from the page's \<open>play_time\<close>: the
  delta has an \<open>achievement\<close> entry exactly when the fetched rate is not the
  sentinel -1 and differs from the number the page holds as \<open>achievement\<close>; the entry
  carries the fetched rate. With the sentinel, nothing is staged and the update
  leaves the page's \<open>achievement\<close> as it was, present or absent. A page without an
  \<open>achievement\<close> number and a fetched rate of 0 stage the entry. The sentinel is
  told apart from every computed rate, which lies between 0 and 1.
\<close>

theorem C2_achievement_staged_iff:
  "(title_content (properties page) = Inr c
    \<and> number (properties page) ''play_time'' \<noteq> Val (JNum (of_nat (playtime_forever game))) \<longrightarrow>
     (\<exists>delta. fst (propertiesToUpdate e game page w) = Inr delta
        \<and> (''achievement'' \<in> fst ` set delta \<longleftrightarrow>
             fetched_rate e (appid game) \<noteq> - 1
             \<and> number (properties page) ''achievement''
                 \<noteq> Val (JNum (fetched_rate e (appid game))))
        \<and> (\<forall>v. (''achievement'', v) \<in> set delta \<longrightarrow>
             v = Number_prop (Some (fetched_rate e (appid game))))
        \<and> (fetched_rate e (appid game) = - 1 \<longrightarrow>
             patch (properties page) delta ''achievement'' = properties page ''achievement'')
        \<and> (fetched_rate e (appid game) = 0
             \<and> number (properties page) ''achievement'' = Undefined \<longrightarrow>
             (''achievement'', Number_prop (Some 0)) \<in> set delta)))
   \<and> (fetched_rate e a = - 1 \<or> (0 \<le> fetched_rate e a \<and> fetched_rate e a \<le> 1))"
proof (intro conjI impI)
  assume h: "title_content (properties page) = Inr c
    \<and> number (properties page) ''play_time'' \<noteq> Val (JNum (of_nat (playtime_forever game)))"
  define delta where "delta =
     (if c \<noteq> Some (name game) then [(''name'', Title_prop [Some (name game)])] else [])
      @ [(''play_time'', Number_prop (Some (of_nat (playtime_forever game))))]
      @ (if fetched_rate e (appid game) \<noteq> - 1 \<and>
            number (properties page) ''achievement''
              \<noteq> Val (JNum (fetched_rate e (appid game)))
         then [(''achievement'', Number_prop (Some (fetched_rate e (appid game))))]
         else [])"
  have d: "fst (propertiesToUpdate e game page w) = Inr delta"
    using h by (simp add: propertiesToUpdate_new_playtime delta_def)
  have iff: "''achievement'' \<in> fst ` set delta \<longleftrightarrow>
             fetched_rate e (appid game) \<noteq> - 1
             \<and> number (properties page) ''achievement''
                 \<noteq> Val (JNum (fetched_rate e (appid game)))"
    by (auto simp: delta_def)
  have val: "\<forall>v. (''achievement'', v) \<in> set delta \<longrightarrow>
             v = Number_prop (Some (fetched_rate e (appid game)))"
    by (auto simp: delta_def split: if_splits)
  have keep: "fetched_rate e (appid game) = - 1 \<longrightarrow>
             patch (properties page) delta ''achievement'' = properties page ''achievement''"
    using iff by (auto intro: patch_other)
  have zero: "fetched_rate e (appid game) = 0
             \<and> number (properties page) ''achievement'' = Undefined \<longrightarrow>
             (''achievement'', Number_prop (Some 0)) \<in> set delta"
    by (auto simp: delta_def)
  from d iff val keep zero
  show "\<exists>delta. fst (propertiesToUpdate e game page w) = Inr delta
        \<and> (''achievement'' \<in> fst ` set delta \<longleftrightarrow>
             fetched_rate e (appid game) \<noteq> - 1
             \<and> number (properties page) ''achievement''
                 \<noteq> Val (JNum (fetched_rate e (appid game))))
        \<and> (\<forall>v. (''achievement'', v) \<in> set delta \<longrightarrow>
             v = Number_prop (Some (fetched_rate e (appid game))))
        \<and> (fetched_rate e (appid game) = - 1 \<longrightarrow>
             patch (properties page) delta ''achievement'' = properties page ''achievement'')
        \<and> (fetched_rate e (appid game) = 0
             \<and> number (properties page) ''achievement'' = Undefined \<longrightarrow>
             (''achievement'', Number_prop (Some 0)) \<in> set delta)"
    by blast
next
  show "fetched_rate e a = - 1 \<or> (0 \<le> fetched_rate e a \<and> fetched_rate e a \<le> 1)"
    by (rule fetched_rate_range)
qed

theorem C2_achievement_staged_iff_witness:
  "title_content (properties page_b) = Inr (Some ''Game B'')
   \<and> number (properties page_b) ''play_time'' \<noteq> Val (JNum (of_nat (playtime_forever game_b)))
   \<and> fetched_rate env_ok (appid game_b) = 3 / 4
   \<and> number (properties page_b) ''achievement'' = Val (JNum (1 / 2))
   \<and> fst (propertiesToUpdate env_ok game_b page_b (world0 [page_b]))
       = Inr [(''play_time'', Number_prop (Some 500)), (''achievement'', Number_prop (Some (3 / 4)))]
   \<and> fetched_rate env_unreachable (appid game_b) = - 1
   \<and> fst (propertiesToUpdate env_unreachable game_b page_b (world0 [page_b]))
       = Inr [(''play_time'', Number_prop (Some 500))]
   \<and> fetched_rate (env_ok\<lparr>steam := (\<lambda>a. stats_response [0, 0])\<rparr>) (appid game_b) = 0
   \<and> number (properties (page_b\<lparr>properties := (properties page_b)(''achievement'' := None)\<rparr>))
        ''achievement'' = Undefined
   \<and> fst (propertiesToUpdate (env_ok\<lparr>steam := (\<lambda>a. stats_response [0, 0])\<rparr>) game_b
          (page_b\<lparr>properties := (properties page_b)(''achievement'' := None)\<rparr>) (world0 [page_b]))
       = Inr [(''play_time'', Number_prop (Some 500)), (''achievement'', Number_prop (Some 0))]"
proof -
  have r0: "fetched_rate (env_ok\<lparr>steam := (\<lambda>a. stats_response [0, 0])\<rparr>) a = 0" for a
    unfolding fetched_rate_def by (simp add: rate_none_of_two)
  show ?thesis
    using C2_achievement_staged_iff [where page = page_b and c = "Some ''Game B''"
        and game = game_b and e = env_ok and w = "world0 [page_b]" and a = 20]
      C2_achievement_staged_iff [where page = page_b and c = "Some ''Game B''"
        and game = game_b and e = env_unreachable and w = "world0 [page_b]" and a = 20]
      C2_achievement_staged_iff [where c = "Some ''Game B''" and game = game_b
        and page = "page_b\<lparr>properties := (properties page_b)(''achievement'' := None)\<rparr>"
        and e = "env_ok\<lparr>steam := (\<lambda>a. stats_response [0, 0])\<rparr>"
        and w = "world0 [page_b]" and a = 20]
    by (simp add: title_content_def number_def page_b_def game_b_def r0 rate_env_ok
        rate_env_unreachable propertiesToUpdate_new_playtime)
qed

section \<open>Unmatched games: the create\<close>

lemma digit_values:
  "list_all (\<lambda>d. (of_char (''0123456789'' ! d) :: nat) - 48 = d) [0..<10]"
  by code_simp

lemma digit_value: "n < 10 \<Longrightarrow> (of_char (''0123456789'' ! n) :: nat) - 48 = n"
  using digit_values by (simp add: list_all_iff)

lemma nat_of_string_snoc:
  "nat_of_string (s @ [c]) = 10 * nat_of_string s + (of_char c - 48)"
  by (simp add: nat_of_string_def)

lemma string_of_nat_decimal: "nat_of_string (string_of_nat n) = n"
proof (induction n rule: string_of_nat.induct)
  case (1 n)
  show ?case
  proof (cases "n < 10")
    case True
    then show ?thesis
      using digit_value [of n] by (subst string_of_nat.simps) (simp add: nat_of_string_def)
  next
    case False
    then have "nat_of_string (string_of_nat (n div 10)) = n div 10" by (rule 1)
    moreover have "(of_char (''0123456789'' ! (n mod 10)) :: nat) - 48 = n mod 10"
      by (rule digit_value) simp
    ultimately show ?thesis
      using False by (subst string_of_nat.simps) (simp add: nat_of_string_snoc)
  qed
qed

text \<open>
  C3. For a game with no entry in the index, the step of the loop requests the
  achievements of the game and sends exactly one write, a create. Its properties
  are \<open>appid\<close>, \<open>name\<close> and \<open>play_time\<close> from the game, followed by \<open>achievement\<close>
  exactly when the fetched rate is not the sentinel -1; its cover is the URL made of
  the fixed prefix, the appid in decimal digits and \<open>/header.jpg\<close>. In a run, this
  create stands between the writes for the games before and those for the games
  after.
\<close>

theorem C3_create_for_unmatched:
  "(m (of_nat (appid game)) = None \<longrightarrow>
     fetched (sync_game e m w game) = fetched w @ [appid game]
     \<and> (\<exists>props.
          sent (sync_game e m w game) =
            sent w @ [CreatePage props
              (''https://cdn.akamai.steamstatic.com/steam/apps/''
                 @ string_of_nat (appid game) @ ''/header.jpg'')]
          \<and> props =
              [(''appid'', Number_prop (Some (of_nat (appid game)))),
               (''name'', Title_prop [Some (name game)]),
               (''play_time'', Number_prop (Some (of_nat (playtime_forever game))))]
              @ (if fetched_rate e (appid game) \<noteq> - 1
                 then [(''achievement'', Number_prop (Some (fetched_rate e (appid game))))]
                 else [])
          \<and> (''achievement'' \<in> fst ` set props \<longleftrightarrow> fetched_rate e (appid game) \<noteq> - 1)))
   \<and> (notionAppIdMap (database w) (of_nat (appid game)) = None \<longrightarrow>
        sent (syncSteamGamesToNotion e (before @ game # after) w) =
          sent w
          @ concat (map (\<lambda>g. sent (sync_game e (notionAppIdMap (database w)) (world0 []) g)) before)
          @ [CreatePage
               ([(''appid'', Number_prop (Some (of_nat (appid game)))),
                 (''name'', Title_prop [Some (name game)]),
                 (''play_time'', Number_prop (Some (of_nat (playtime_forever game))))]
                @ (if fetched_rate e (appid game) \<noteq> - 1
                   then [(''achievement'', Number_prop (Some (fetched_rate e (appid game))))]
                   else []))
               (''https://cdn.akamai.steamstatic.com/steam/apps/''
                  @ string_of_nat (appid game) @ ''/header.jpg'')]
          @ concat (map (\<lambda>g. sent (sync_game e (notionAppIdMap (database w)) (world0 []) g)) after))
   \<and> nat_of_string (string_of_nat (appid game)) = appid game"
proof (intro conjI impI)
  show "nat_of_string (string_of_nat (appid game)) = appid game"
    by (rule string_of_nat_decimal)
next
  assume "m (of_nat (appid game)) = None"
  then show "fetched (sync_game e m w game) = fetched w @ [appid game]"
    by (simp add: sync_game_fetched createNewGamePage_fetched)
next
  assume "m (of_nat (appid game)) = None"
  then show "\<exists>props.
          sent (sync_game e m w game) =
            sent w @ [CreatePage props
              (''https://cdn.akamai.steamstatic.com/steam/apps/''
                 @ string_of_nat (appid game) @ ''/header.jpg'')]
          \<and> props =
              [(''appid'', Number_prop (Some (of_nat (appid game)))),
               (''name'', Title_prop [Some (name game)]),
               (''play_time'', Number_prop (Some (of_nat (playtime_forever game))))]
              @ (if fetched_rate e (appid game) \<noteq> - 1
                 then [(''achievement'', Number_prop (Some (fetched_rate e (appid game))))]
                 else [])
          \<and> (''achievement'' \<in> fst ` set props \<longleftrightarrow> fetched_rate e (appid game) \<noteq> - 1)"
    by (auto simp: sync_game_sent createNewGamePage_sent cover_url_def)
next
  assume "notionAppIdMap (database w) (of_nat (appid game)) = None"
  then show "sent (syncSteamGamesToNotion e (before @ game # after) w) =
          sent w
          @ concat (map (\<lambda>g. sent (sync_game e (notionAppIdMap (database w)) (world0 []) g)) before)
          @ [CreatePage
               ([(''appid'', Number_prop (Some (of_nat (appid game)))),
                 (''name'', Title_prop [Some (name game)]),
                 (''play_time'', Number_prop (Some (of_nat (playtime_forever game))))]
                @ (if fetched_rate e (appid game) \<noteq> - 1
                   then [(''achievement'', Number_prop (Some (fetched_rate e (appid game))))]
                   else []))
               (''https://cdn.akamai.steamstatic.com/steam/apps/''
                  @ string_of_nat (appid game) @ ''/header.jpg'')]
          @ concat (map (\<lambda>g. sent (sync_game e (notionAppIdMap (database w)) (world0 []) g)) after)"
    by (simp add: run_sent sync_game_sent createNewGamePage_sent cover_url_def world0_def)
qed

theorem C3_create_for_unmatched_witness:
  "notionAppIdMap [page_b] (of_nat (appid game_a)) = None
   \<and> notionAppIdMap (database (world0 [page_b])) (of_nat (appid game_a)) = None
   \<and> fetched (sync_game env_ok (notionAppIdMap [page_b]) (world0 [page_b]) game_a) = [10]
   \<and> sent (sync_game env_ok (notionAppIdMap [page_b]) (world0 [page_b]) game_a) =
       [CreatePage
          [(''appid'', Number_prop (Some 10)),
           (''name'', Title_prop [Some ''Game A'']),
           (''play_time'', Number_prop (Some 120)),
           (''achievement'', Number_prop (Some (3 / 4)))]
          ''https://cdn.akamai.steamstatic.com/steam/apps/10/header.jpg'']
   \<and> sent (syncSteamGamesToNotion env_ok ([game_c] @ game_a # []) (world0 [page_b])) =
       [CreatePage
          [(''appid'', Number_prop (Some 10)),
           (''name'', Title_prop [Some ''Game A'']),
           (''play_time'', Number_prop (Some 120)),
           (''achievement'', Number_prop (Some (3 / 4)))]
          ''https://cdn.akamai.steamstatic.com/steam/apps/10/header.jpg'']"
proof -
  have idx: "notionAppIdMap [page_b] (of_nat (appid game_a)) = None"
      "notionAppIdMap [page_b] (of_nat (appid game_c)) = Some page_b"
    by (simp_all add: notionAppIdMap_find has_appid_def number_def page_b_def game_a_def
        game_c_def)
  have rate: "fetched_rate env_ok a = 3 / 4" for a
    by (rule rate_env_ok)
  have same: "in_sync game_c page_b"
    by (simp add: in_sync_def title_content_def number_def page_b_def game_c_def)
  have skip: "sync_game env_ok (notionAppIdMap [page_b]) (world0 []) game_c = world0 []"
    using idx(2) same by (rule sync_game_in_sync)
  have a: "appid game_a = 10" "name game_a = ''Game A''" "playtime_forever game_a = 120"
    by (simp_all add: game_a_def)
  have w: "database (world0 ps) = ps" "sent (world0 ps) = []" "fetched (world0 ps) = []" for ps
    by (simp_all add: world0_def)
  have none: "notionAppIdMap [page_b] 10 = None"
    using idx(1) by (simp add: a)
  show ?thesis
    using C3_create_for_unmatched [where m = "notionAppIdMap [page_b]" and game = game_a
        and e = env_ok and w = "world0 [page_b]" and before = "[game_c]" and after = "[]"]
    by (simp add: none rate skip a w string_of_nat.simps)
qed

section \<open>What an update writes\<close>

lemma notionApiRequest_database:
  "database (snd (notionApiRequest e req w)) =
     (if accepted e req then serve e req (database w) else database w)"
  by (simp add: notionApiRequest_def accepted_def Let_def split: notion_response.splits)

lemma updatePage_database:
  "database (snd (updatePage e pid d w)) =
     (if accepted e (UpdatePage pid d) then serve e (UpdatePage pid d) (database w) else database w)"
  by (simp add: updatePage_def notionApiRequest_database)

lemma createPage_database:
  "database (snd (createPage e ps c w)) =
     (if accepted e (CreatePage ps c) then serve e (CreatePage ps c) (database w) else database w)"
  by (simp add: createPage_def notionApiRequest_database)

lemma propertiesToUpdate_database: "database (snd (propertiesToUpdate e game page w)) = database w"
  by (simp add: propertiesToUpdate_def Let_def fetchAchievements_eq split: sum.splits)

lemma updateExistingGamePage_database:
  "database (snd (updateExistingGamePage e game page w)) =
     (case fst (propertiesToUpdate e game page w) of
        Inl err \<Rightarrow> database w
      | Inr delta \<Rightarrow>
          if delta \<noteq> [] \<and> accepted e (UpdatePage (page_id page) delta)
          then serve e (UpdatePage (page_id page) delta) (database w) else database w)"
  by (simp add: updateExistingGamePage_def case_prod_beta updatePage_database
      propertiesToUpdate_database split: sum.splits)

lemma propertiesToUpdate_keys:
  "fst (propertiesToUpdate e game page w) = Inr delta \<Longrightarrow>
     fst ` set delta \<subseteq> {''name'', ''play_time'', ''achievement''}"
  by (auto simp: propertiesToUpdate_def Let_def fetchAchievements_eq
      split: sum.splits if_splits)

lemma serve_update_ids: "map page_id (serve e (UpdatePage pid delta) pages) = map page_id pages"
  by (induction pages) auto

lemma serve_update_frame:
  "k \<notin> fst ` set delta \<Longrightarrow>
     map (\<lambda>p. properties p k) (serve e (UpdatePage pid delta) pages)
       = map (\<lambda>p. properties p k) pages"
  by (induction pages) (auto simp: patch_other)

lemma sync_game_updates:
  assumes "UpdatePage pid delta \<in> set (sent (sync_game e m w game))"
  shows "UpdatePage pid delta \<in> set (sent w)
         \<or> fst ` set delta \<subseteq> {''name'', ''play_time'', ''achievement''}"
proof (cases "m (of_nat (appid game))")
  case None
  with assms show ?thesis by (simp add: sync_game_sent createNewGamePage_sent)
next
  case (Some page)
  show ?thesis
  proof (cases "fst (propertiesToUpdate e game page w)")
    case (Inl err)
    with Some assms show ?thesis by (simp add: sync_game_sent updateExistingGamePage_sent)
  next
    case (Inr d)
    then have "fst ` set d \<subseteq> {''name'', ''play_time'', ''achievement''}"
      by (rule propertiesToUpdate_keys)
    with Some Inr assms show ?thesis
      by (auto simp: sync_game_sent updateExistingGamePage_sent split: if_splits)
  qed
qed

lemma foldl_sync_game_updates:
  "UpdatePage pid delta \<in> set (sent (foldl (sync_game e m) w games)) \<Longrightarrow>
     UpdatePage pid delta \<in> set (sent w)
     \<or> fst ` set delta \<subseteq> {''name'', ''play_time'', ''achievement''}"
proof (induction games arbitrary: w)
  case Nil
  then show ?case by simp
next
  case (Cons g games)
  from Cons.prems have "UpdatePage pid delta \<in> set (sent (foldl (sync_game e m) (sync_game e m w g) games))"
    by simp
  then have "UpdatePage pid delta \<in> set (sent (sync_game e m w g))
     \<or> fst ` set delta \<subseteq> {''name'', ''play_time'', ''achievement''}"
    by (rule Cons.IH)
  then show ?case using sync_game_updates by blast
qed

lemma run_updates:
  "UpdatePage pid delta \<in> set (sent (syncSteamGamesToNotion e steamGames w)) \<Longrightarrow>
     UpdatePage pid delta \<in> set (sent w)
     \<or> fst ` set delta \<subseteq> {''name'', ''play_time'', ''achievement''}"
  unfolding syncSteamGamesToNotion_sent
  by (drule foldl_sync_game_updates) simp

text \<open>
  C9. The delta of a matched game has no key other than \<open>name\<close>, \<open>play_time\<close> and
  \<open>achievement\<close>, so never \<open>appid\<close>. \<open>updateExistingGamePage\<close> sends nothing or one
  update of the matched page that carries this delta, and every update request of
  a run carries only these keys. After the call the pages of the database have the
  identifiers they had, and every property under another key, \<open>appid\<close> among them,
  is what it was.
\<close>

theorem C9_update_writes_delta_only:
  "(\<forall>delta. fst (propertiesToUpdate e game page w) = Inr delta \<longrightarrow>
      fst ` set delta \<subseteq> {''name'', ''play_time'', ''achievement''}
      \<and> ''appid'' \<notin> fst ` set delta)
   \<and> (sent (snd (updateExistingGamePage e game page w)) = sent w
       \<or> (\<exists>delta. delta \<noteq> [] \<and> fst (propertiesToUpdate e game page w) = Inr delta
            \<and> sent (snd (updateExistingGamePage e game page w))
                = sent w @ [UpdatePage (page_id page) delta]))
   \<and> map page_id (database (snd (updateExistingGamePage e game page w)))
       = map page_id (database w)
   \<and> (\<forall>k. k \<notin> {''name'', ''play_time'', ''achievement''} \<longrightarrow>
        map (\<lambda>p. properties p k) (database (snd (updateExistingGamePage e game page w)))
          = map (\<lambda>p. properties p k) (database w))
   \<and> (\<forall>pid d. UpdatePage pid d \<in> set (sent (syncSteamGamesToNotion e steamGames w)) \<longrightarrow>
        UpdatePage pid d \<in> set (sent w)
        \<or> fst ` set d \<subseteq> {''name'', ''play_time'', ''achievement''})"
proof (intro conjI allI impI)
  fix delta
  assume d: "fst (propertiesToUpdate e game page w) = Inr delta"
  then show "fst ` set delta \<subseteq> {''name'', ''play_time'', ''achievement''}"
    by (rule propertiesToUpdate_keys)
  then show "''appid'' \<notin> fst ` set delta" by auto
next
  show "sent (snd (updateExistingGamePage e game page w)) = sent w
       \<or> (\<exists>delta. delta \<noteq> [] \<and> fst (propertiesToUpdate e game page w) = Inr delta
            \<and> sent (snd (updateExistingGamePage e game page w))
                = sent w @ [UpdatePage (page_id page) delta])"
    by (simp add: updateExistingGamePage_sent split: sum.splits)
next
  show "map page_id (database (snd (updateExistingGamePage e game page w)))
       = map page_id (database w)"
    by (simp add: updateExistingGamePage_database serve_update_ids del: serve.simps
        split: sum.splits)
next
  fix k :: string
  assume k: "k \<notin> {''name'', ''play_time'', ''achievement''}"
  show "map (\<lambda>p. properties p k) (database (snd (updateExistingGamePage e game page w)))
          = map (\<lambda>p. properties p k) (database w)"
  proof (cases "fst (propertiesToUpdate e game page w)")
    case (Inl err)
    then show ?thesis by (simp add: updateExistingGamePage_database)
  next
    case (Inr delta)
    then have "k \<notin> fst ` set delta" using propertiesToUpdate_keys k by blast
    with Inr show ?thesis
      by (simp add: updateExistingGamePage_database serve_update_frame del: serve.simps)
  qed
next
  fix pid d
  assume "UpdatePage pid d \<in> set (sent (syncSteamGamesToNotion e steamGames w))"
  then show "UpdatePage pid d \<in> set (sent w)
        \<or> fst ` set d \<subseteq> {''name'', ''play_time'', ''achievement''}"
    by (rule run_updates)
qed

theorem C9_update_writes_delta_only_witness:
  "fst (propertiesToUpdate env_ok game_b page_b (world0 [page_b]))
     = Inr [(''play_time'', Number_prop (Some 500)), (''achievement'', Number_prop (Some (3 / 4)))]
   \<and> sent (snd (updateExistingGamePage env_ok game_b page_b (world0 [page_b])))
     = [UpdatePage ''page-b''
          [(''play_time'', Number_prop (Some 500)), (''achievement'', Number_prop (Some (3 / 4)))]]
   \<and> ''appid'' \<notin> {''name'', ''play_time'', ''achievement''}
   \<and> map (\<lambda>p. properties p ''appid'')
        (database (snd (updateExistingGamePage env_ok game_b page_b (world0 [page_b]))))
       = [Some (Number_prop (Some 20))]
   \<and> map (\<lambda>p. properties p ''play_time'')
        (database (snd (updateExistingGamePage env_ok game_b page_b (world0 [page_b]))))
       = [Some (Number_prop (Some 500))]
   \<and> UpdatePage ''page-b''
          [(''play_time'', Number_prop (Some 500)), (''achievement'', Number_prop (Some (3 / 4)))]
       \<in> set (sent (syncSteamGamesToNotion env_ok [game_b] (world0 [page_b])))
   \<and> fst ` set [(''play_time'', Number_prop (Some 500)),
                  (''achievement'', Number_prop (Some (3 / 4)))]
       \<subseteq> {''name'', ''play_time'', ''achievement''}"
proof -
  have delta: "fst (propertiesToUpdate env_ok game_b page_b w)
     = Inr [(''play_time'', Number_prop (Some 500)), (''achievement'', Number_prop (Some (3 / 4)))]"
    for w
    by (simp add: title_content_def number_def page_b_def game_b_def
        propertiesToUpdate_new_playtime rate_env_ok)
  have idx: "notionAppIdMap [page_b] (of_nat (appid game_b)) = Some page_b"
    by (simp add: notionAppIdMap_find has_appid_def number_def page_b_def game_b_def)
  have run: "sent (syncSteamGamesToNotion env_ok [game_b] (world0 [page_b])) =
      [UpdatePage ''page-b''
          [(''play_time'', Number_prop (Some 500)), (''achievement'', Number_prop (Some (3 / 4)))]]"
  proof -
    have w: "database (world0 [page_b]) = [page_b]" "sent (world0 ps) = []" for ps
      by (simp_all add: world0_def)
    have pid: "page_id page_b = ''page-b''" by (simp add: page_b_def)
    show ?thesis
      by (simp add: run_sent w sync_game_sent idx updateExistingGamePage_sent delta pid)
  qed
  have acc: "accepted env_ok req" for req
    by (simp add: accepted_def env_ok_def ok_def)
  have w: "database (world0 [page_b]) = [page_b]" "sent (world0 ps) = []" for ps
    by (simp_all add: world0_def)
  have pid: "page_id page_b = ''page-b''" by (simp add: page_b_def)
  have db: "map (\<lambda>p. properties p k)
      (serve env_ok (UpdatePage ''page-b''
         [(''play_time'', Number_prop (Some 500)), (''achievement'', Number_prop (Some (3 / 4)))])
         [page_b])
      = [if k = ''achievement'' then Some (Number_prop (Some (3 / 4)))
         else if k = ''play_time'' then Some (Number_prop (Some 500))
         else properties page_b k]" for k
    by (simp add: pid)
  have props: "properties page_b ''appid'' = Some (Number_prop (Some 20))"
    by (simp add: page_b_def)
  show ?thesis
    using C9_update_writes_delta_only [where e = env_ok and game = game_b and page = page_b
        and w = "world0 [page_b]" and steamGames = "[game_b]"]
    by (simp add: run delta updateExistingGamePage_sent updateExistingGamePage_database
        acc w pid db props del: serve.simps)
qed

section \<open>A game identical to its page\<close>

text \<open>
  C8, amended. For a game matched to a page that agrees with it on title and
  playtime, and whatever the achievements endpoint would answer, the step of the
  loop changes nothing: no request to the endpoint, no write, and no line on the
  console, so no failure is logged. The loop handles the other games as it would
  without this one, and the run sends the writes and requests the achievements it
  would without this one.
\<close>

theorem C8_identical_item_skipped:
  "(m (of_nat (appid game)) = Some page \<and> in_sync game page \<longrightarrow>
     sync_game e m w game = w
     \<and> foldl (sync_game e m) w (before @ game # after)
         = foldl (sync_game e m) w (before @ after))
   \<and> (notionAppIdMap (database w) (of_nat (appid game)) = Some page \<and> in_sync game page \<longrightarrow>
     sent (syncSteamGamesToNotion e (before @ game # after) w)
       = sent (syncSteamGamesToNotion e (before @ after) w)
     \<and> fetched (syncSteamGamesToNotion e (before @ game # after) w)
       = fetched (syncSteamGamesToNotion e (before @ after) w))"
proof (intro conjI impI)
  assume "m (of_nat (appid game)) = Some page \<and> in_sync game page"
  then show "sync_game e m w game = w"
    and "foldl (sync_game e m) w (before @ game # after)
         = foldl (sync_game e m) w (before @ after)"
    by (simp_all add: sync_game_in_sync)
next
  assume "notionAppIdMap (database w) (of_nat (appid game)) = Some page \<and> in_sync game page"
  then have "sync_game e (notionAppIdMap (database w)) (world0 []) game = world0 []"
    by (simp add: sync_game_in_sync)
  then show "sent (syncSteamGamesToNotion e (before @ game # after) w)
       = sent (syncSteamGamesToNotion e (before @ after) w)"
    and "fetched (syncSteamGamesToNotion e (before @ game # after) w)
       = fetched (syncSteamGamesToNotion e (before @ after) w)"
    by (simp_all add: run_sent run_fetched world0_def)
qed

theorem C8_identical_item_skipped_witness:
  "notionAppIdMap [page_b] (of_nat (appid game_c)) = Some page_b
   \<and> notionAppIdMap (database (world0 [page_b])) (of_nat (appid game_c)) = Some page_b
   \<and> in_sync game_c page_b
   \<and> steam env_unreachable (appid game_c) = Unreachable
   \<and> sync_game env_unreachable (notionAppIdMap [page_b]) (world0 [page_b]) game_c
       = world0 [page_b]
   \<and> foldl (sync_game env_unreachable (notionAppIdMap [page_b])) (world0 [page_b])
        ([] @ game_c # [game_a])
       = foldl (sync_game env_unreachable (notionAppIdMap [page_b])) (world0 [page_b])
        ([] @ [game_a])
   \<and> sent (syncSteamGamesToNotion env_unreachable ([] @ game_c # [game_a]) (world0 [page_b]))
       = sent (syncSteamGamesToNotion env_unreachable ([] @ [game_a]) (world0 [page_b]))"
  using C8_identical_item_skipped [where m = "notionAppIdMap [page_b]" and game = game_c
      and page = page_b and e = env_unreachable and w = "world0 [page_b]"
      and before = "[]" and after = "[game_a]"]
  by (simp add: in_sync_def title_content_def number_def page_b_def game_c_def
      notionAppIdMap_find has_appid_def env_unreachable_def world0_def)

lemma scenario_c_console:
  "console (syncSteamGamesToNotion env_unreachable [game_c] (world0 [page_b])) =
     [Log_starting, Log_found 1 1, Log_complete]"
  "console (syncSteamGamesToNotion env_unreachable [game_c, game_a] (world0 [page_b])) =
     [Log_starting, Log_found 2 1, Log_adding ''Game A'',
      Error_fetching_achievements 10 NetworkError, Log_creating_page, Log_complete]"
  by (simp_all add: syncSteamGamesToNotion_def Let_def sync_game_def notionAppIdMap_find
      has_appid_def number_def page_b_def game_c_def game_a_def world0_def
      updateExistingGamePage_def propertiesToUpdate_def title_content_def
      createNewGamePage_def fetchAchievements_def getGameAchievements_def
      getGameAchievements_try_def env_unreachable_def env_ok_def createPage_def
      notionApiRequest_def ok_def no_stats_def)

text \<open>
  The claim as stated fails in scenario C. With the endpoint unreachable, the run
  over the identical game alone prints its three progress lines and nothing else;
  the run over the identical game and game A prints no failed-sync line either:
  its only error is the fetch for game A, which is then created.
\<close>

theorem C8_identical_item_not_logged:
  "in_sync game_c page_b
   \<and> notionAppIdMap [page_b] (of_nat (appid game_c)) = Some page_b
   \<and> steam env_unreachable (appid game_c) = Unreachable
   \<and> console (syncSteamGamesToNotion env_unreachable [game_c] (world0 [page_b])) =
       [Log_starting, Log_found 1 1, Log_complete]
   \<and> \<not> (\<exists>l \<in> set (console (syncSteamGamesToNotion env_unreachable [game_c, game_a]
              (world0 [page_b]))). is_failed_sync l)"
  unfolding scenario_c_console
  by (simp add: in_sync_def title_content_def number_def page_b_def game_c_def
      notionAppIdMap_find has_appid_def env_unreachable_def)

section \<open>Running the synchronisation twice\<close>

lemma title_content_error: "title_content props = Inl err \<Longrightarrow> err = TypeError"
  by (auto simp: title_content_def split: option.splits property.splits list.splits)

lemma sync_game_settled:
  assumes "m (of_nat (appid game)) = Some page" and "settled game page"
  shows "sent (sync_game e m w game) = sent w"
    and "fetched (sync_game e m w game) = fetched w"
    and "database (sync_game e m w game) = database w"
proof -
  have "sync_game e m w game = w
      \<or> sync_game e m w game
          = w\<lparr>console := console w @ [Error_failed_sync (name game) (appid game) TypeError]\<rparr>"
  proof (cases "in_sync game page")
    case True
    with assms(1) show ?thesis by (simp add: sync_game_in_sync)
  next
    case False
    with assms(2) have "title_content (properties page) = Inl TypeError"
      by (simp add: settled_def)
    with assms(1) show ?thesis
      by (simp add: sync_game_def updateExistingGamePage_def propertiesToUpdate_def)
  qed
  then show "sent (sync_game e m w game) = sent w"
    and "fetched (sync_game e m w game) = fetched w"
    and "database (sync_game e m w game) = database w"
    by auto
qed

lemma foldl_sync_game_settled:
  assumes "\<forall>g \<in> set games. \<exists>p. m (of_nat (appid g)) = Some p \<and> settled g p"
  shows "sent (foldl (sync_game e m) w games) = sent w
       \<and> fetched (foldl (sync_game e m) w games) = fetched w
       \<and> database (foldl (sync_game e m) w games) = database w"
  using assms
proof (induction games arbitrary: w)
  case Nil
  then show ?case by simp
next
  case (Cons g games)
  then obtain p where p: "m (of_nat (appid g)) = Some p" "settled g p" by auto
  from Cons have "sent (foldl (sync_game e m) (sync_game e m w g) games) = sent (sync_game e m w g)
       \<and> fetched (foldl (sync_game e m) (sync_game e m w g) games) = fetched (sync_game e m w g)
       \<and> database (foldl (sync_game e m) (sync_game e m w g) games) = database (sync_game e m w g)"
    by simp
  with p show ?case by (simp add: sync_game_settled)
qed

lemma find_rev_map:
  assumes "\<And>x. P (f x) = P x"
  shows "List.find P (rev (map f xs)) = map_option f (List.find P (rev xs))"
  by (induction xs rule: rev_induct) (auto simp: assms)

lemma notionAppIdMap_map:
  assumes "\<And>q. number (properties (f q)) ''appid'' = number (properties q) ''appid''"
  shows "notionAppIdMap (map f pages) n = map_option f (notionAppIdMap pages n)"
proof -
  have "\<And>x. has_appid n (f x) = has_appid n x" by (simp add: has_appid_def assms)
  then show ?thesis by (simp add: notionAppIdMap_find find_rev_map)
qed

lemma find_SomeD: "List.find P xs = Some x \<Longrightarrow> x \<in> set xs \<and> P x"
  by (induction xs) (auto split: if_splits)

lemma notionAppIdMap_Some:
  assumes "notionAppIdMap pages n = Some p"
  shows "p \<in> set pages" and "has_appid n p" and "n \<noteq> 0"
proof -
  from assms have n: "n \<noteq> 0" and f: "List.find (has_appid n) (rev pages) = Some p"
    by (auto simp: notionAppIdMap_find split: if_splits)
  from f have "p \<in> set (rev pages) \<and> has_appid n p" by (rule find_SomeD)
  then show "p \<in> set pages" and "has_appid n p" by simp_all
  show "n \<noteq> 0" by (rule n)
qed

lemma sync_game_database:
  "database (sync_game e m w game) =
     (case m (of_nat (appid game)) of
        Some page \<Rightarrow> database (snd (updateExistingGamePage e game page w))
      | None \<Rightarrow> database (snd (createNewGamePage e game w)))"
  by (simp add: sync_game_def case_prod_beta split: sum.splits option.splits)

lemma createNewGamePage_database:
  assumes "\<forall>req. accepted e req"
  shows "database (snd (createNewGamePage e game w)) =
     database w @ [\<lparr>page_id = new_page_id e (database w),
       properties = patch Map.empty
         ([(''appid'', Number_prop (Some (of_nat (appid game)))),
           (''name'', Title_prop [Some (name game)]),
           (''play_time'', Number_prop (Some (of_nat (playtime_forever game))))]
          @ (if fetched_rate e (appid game) \<noteq> - 1
             then [(''achievement'', Number_prop (Some (fetched_rate e (appid game))))]
             else []))\<rparr>]"
  using assms
  by (simp add: createNewGamePage_def fetchAchievements_eq createPage_database fetched_rate_def)

lemma created_page:
  assumes "props = patch Map.empty
         ([(''appid'', Number_prop (Some (of_nat (appid game)))),
           (''name'', Title_prop [Some (name game)]),
           (''play_time'', Number_prop (Some (of_nat (playtime_forever game))))]
          @ (if r \<noteq> - 1 then [(''achievement'', Number_prop (Some r))] else []))"
  shows "number props ''appid'' = Val (JNum (of_nat (appid game)))"
    and "in_sync game \<lparr>page_id = pid, properties = props\<rparr>"
  by (simp_all add: assms number_def in_sync_def title_content_def)

lemma patched_in_sync:
  assumes "title_content (properties p) = Inr c"
      and "fst (propertiesToUpdate e game p w) = Inr delta"
  shows "in_sync game (p\<lparr>properties := patch (properties p) delta\<rparr>)"
proof (cases "number (properties p) ''play_time'' = Val (JNum (of_nat (playtime_forever game)))")
  case True
  with assms have "delta = (if c \<noteq> Some (name game) then [(''name'', Title_prop [Some (name game)])] else [])"
    by (simp add: propertiesToUpdate_same_playtime)
  with True assms(1) show ?thesis
    by (auto simp: in_sync_def title_content_def number_def)
next
  case False
  with assms have "delta = (if c \<noteq> Some (name game) then [(''name'', Title_prop [Some (name game)])] else [])
           @ [(''play_time'', Number_prop (Some (of_nat (playtime_forever game))))]
           @ (if fetched_rate e (appid game) \<noteq> - 1 \<and>
                 number (properties p) ''achievement''
                   \<noteq> Val (JNum (fetched_rate e (appid game)))
              then [(''achievement'', Number_prop (Some (fetched_rate e (appid game))))]
              else [])"
    by (simp add: propertiesToUpdate_new_playtime)
  with assms(1) show ?thesis
    by (auto simp: in_sync_def title_content_def number_def)
qed

lemma propertiesToUpdate_Inl:
  "fst (propertiesToUpdate e game p w) = Inl err \<Longrightarrow> title_content (properties p) = Inl TypeError"
  by (auto simp: propertiesToUpdate_def Let_def case_prod_beta
      split: sum.splits if_splits dest: title_content_error)

lemma propertiesToUpdate_Inr:
  "fst (propertiesToUpdate e game p w) = Inr delta \<Longrightarrow> \<exists>c. title_content (properties p) = Inr c"
  by (auto simp: propertiesToUpdate_def Let_def split: sum.splits)

lemma propertiesToUpdate_Nil:
  "fst (propertiesToUpdate e game p w) = Inr [] \<Longrightarrow> in_sync game p"
  by (auto simp: propertiesToUpdate_def Let_def case_prod_beta in_sync_def
      split: sum.splits if_splits)

lemma distinct_page_id_eq:
  assumes "distinct (map page_id pages)" and "p \<in> set pages" and "q \<in> set pages"
      and "page_id p = page_id q"
  shows "p = q"
  using assms by (meson distinct_map inj_on_def)

lemma reconciled_keep:
  assumes inv: "reconciled m0 seen pages"
      and look: "notionAppIdMap pages (of_nat (appid g)) = Some p"
      and st: "settled g p"
  shows "reconciled m0 (seen @ [g]) pages"
  using assms by (auto simp: reconciled_def)

lemma reconciled_create:
  assumes inv: "reconciled m0 seen pages"
      and new: "appid g \<notin> appid ` set seen"
      and nz: "appid g \<noteq> 0"
      and none: "m0 (of_nat (appid g)) = None"
      and fresh: "page_id c \<notin> page_id ` set pages"
      and key: "number (properties c) ''appid'' = Val (JNum (of_nat (appid g)))"
      and sync: "in_sync g c"
  shows "reconciled m0 (seen @ [g]) (pages @ [c])"
proof -
  have idx: "notionAppIdMap (pages @ [c]) = (notionAppIdMap pages)(of_nat (appid g) \<mapsto> c)"
    using key nz by (simp add: notionAppIdMap_def index_page_def)
  have other: "of_nat (appid g') \<noteq> (of_nat (appid g) :: rat)" if "g' \<in> set seen" for g'
    using that new by (auto simp: image_iff)
  show ?thesis
    unfolding reconciled_def
  proof (intro conjI ballI allI impI)
    show "distinct (map page_id (pages @ [c]))"
      using inv fresh by (auto simp: reconciled_def)
  next
    fix g' assume "g' \<in> set (seen @ [g])"
    then consider "g' = g" | "g' \<in> set seen" by auto
    then show "\<exists>p. notionAppIdMap (pages @ [c]) (of_nat (appid g')) = Some p \<and> settled g' p"
    proof cases
      case 1
      then show ?thesis using sync by (simp add: idx settled_def)
    next
      case 2
      then show ?thesis using inv other by (simp add: idx reconciled_def)
    qed
  next
    fix k :: rat
    assume "k \<notin> (\<lambda>g. of_nat (appid g)) ` set (seen @ [g])"
    then show "notionAppIdMap (pages @ [c]) k = m0 k"
      using inv by (auto simp: idx reconciled_def)
  qed
qed

lemma reconciled_update:
  assumes inv: "reconciled m0 seen pages"
      and new: "appid g \<notin> appid ` set seen"
      and some: "m0 (of_nat (appid g)) = Some p"
      and keys: "''appid'' \<notin> fst ` set delta"
      and sync: "in_sync g (p\<lparr>properties := patch (properties p) delta\<rparr>)"
  shows "reconciled m0 (seen @ [g])
           (map (\<lambda>q. if page_id q = page_id p
                      then q\<lparr>properties := patch (properties q) delta\<rparr> else q) pages)"
proof -
  define f :: "page \<Rightarrow> page" where "f = (\<lambda>q. if page_id q = page_id p
                      then q\<lparr>properties := patch (properties q) delta\<rparr> else q)"
  have dist: "distinct (map page_id pages)" using inv by (simp add: reconciled_def)
  have fid: "page_id (f q) = page_id q" for q by (simp add: f_def)
  have fnum: "number (properties (f q)) ''appid'' = number (properties q) ''appid''" for q
    using keys by (simp add: f_def number_def patch_other)
  have idx: "notionAppIdMap (map f pages) n = map_option f (notionAppIdMap pages n)" for n
    by (rule notionAppIdMap_map) (rule fnum)
  have not_done: "(of_nat (appid g) :: rat) \<notin> (\<lambda>g. of_nat (appid g)) ` set seen"
    using new by (auto simp: image_iff)
  then have look: "notionAppIdMap pages (of_nat (appid g)) = Some p"
    using inv some by (simp add: reconciled_def)
  then have p_in: "p \<in> set pages" and p_key: "has_appid (of_nat (appid g)) p"
    using notionAppIdMap_Some by blast+
  have fp: "f p = p\<lparr>properties := patch (properties p) delta\<rparr>" by (simp add: f_def)
  have other: "f q = q"
    if "notionAppIdMap pages k = Some q" and "k \<noteq> of_nat (appid g)" for k q
  proof -
    from that(1) have "q \<in> set pages" and "has_appid k q"
      using notionAppIdMap_Some by blast+
    with p_key that(2) have "q \<noteq> p" by (auto simp: has_appid_def)
    with dist p_in \<open>q \<in> set pages\<close> have "page_id q \<noteq> page_id p"
      using distinct_page_id_eq by blast
    then show ?thesis by (simp add: f_def)
  qed
  show ?thesis
    unfolding reconciled_def f_def [symmetric]
  proof (intro conjI ballI allI impI)
    show "distinct (map page_id (map f pages))"
      using dist by (simp add: fid comp_def)
  next
    fix g' assume "g' \<in> set (seen @ [g])"
    then consider "g' = g" | "g' \<in> set seen" by auto
    then show "\<exists>q. notionAppIdMap (map f pages) (of_nat (appid g')) = Some q \<and> settled g' q"
    proof cases
      case 1
      then show ?thesis using look sync by (simp add: idx fp settled_def)
    next
      case 2
      then obtain q where q: "notionAppIdMap pages (of_nat (appid g')) = Some q" "settled g' q"
        using inv by (auto simp: reconciled_def)
      from 2 new have "of_nat (appid g') \<noteq> (of_nat (appid g) :: rat)"
        by (auto simp: image_iff)
      with q(1) have "f q = q" by (rule other)
      with q show ?thesis by (simp add: idx)
    qed
  next
    fix k :: rat
    assume k: "k \<notin> (\<lambda>g. of_nat (appid g)) ` set (seen @ [g])"
    then have kg: "k \<noteq> of_nat (appid g)" by auto
    from k have eq: "notionAppIdMap pages k = m0 k"
      using inv by (auto simp: reconciled_def)
    show "notionAppIdMap (map f pages) k = m0 k"
    proof (cases "notionAppIdMap pages k")
      case None
      with eq show ?thesis by (simp add: idx)
    next
      case (Some q)
      then have "f q = q" using kg by (rule other)
      with Some eq show ?thesis by (simp add: idx)
    qed
  qed
qed

lemma reconciled_step:
  assumes inv: "reconciled m0 seen (database w)"
      and acc: "\<forall>req. accepted e req"
      and fresh: "\<forall>pages. new_page_id e pages \<notin> page_id ` set pages"
      and new: "appid g \<notin> appid ` set seen"
      and nz: "appid g \<noteq> 0"
  shows "reconciled m0 (seen @ [g]) (database (sync_game e m0 w g))"
proof (cases "m0 (of_nat (appid g))")
  case None
  define c where "c = \<lparr>page_id = new_page_id e (database w),
       properties = patch Map.empty
         ([(''appid'', Number_prop (Some (of_nat (appid g)))),
           (''name'', Title_prop [Some (name g)]),
           (''play_time'', Number_prop (Some (of_nat (playtime_forever g))))]
          @ (if fetched_rate e (appid g) \<noteq> - 1
             then [(''achievement'', Number_prop (Some (fetched_rate e (appid g))))]
             else []))\<rparr>"
  have db: "database (sync_game e m0 w g) = database w @ [c]"
    using None acc by (simp add: sync_game_database createNewGamePage_database c_def)
  have "page_id c \<notin> page_id ` set (database w)" using fresh by (simp add: c_def)
  moreover have "number (properties c) ''appid'' = Val (JNum (of_nat (appid g)))"
    unfolding c_def by (simp add: created_page(1))
  moreover have "in_sync g c"
    unfolding c_def by (rule created_page(2)) simp
  ultimately show ?thesis
    unfolding db using inv new nz None by (intro reconciled_create)
next
  case (Some p)
  have not_done: "(of_nat (appid g) :: rat) \<notin> (\<lambda>g. of_nat (appid g)) ` set seen"
    using new by (auto simp: image_iff)
  then have look: "notionAppIdMap (database w) (of_nat (appid g)) = Some p"
    using inv Some by (simp add: reconciled_def)
  show ?thesis
  proof (cases "fst (propertiesToUpdate e g p w)")
    case (Inl err)
    then have "settled g p" by (simp add: settled_def propertiesToUpdate_Inl)
    moreover have "database (sync_game e m0 w g) = database w"
      using Some Inl by (simp add: sync_game_database updateExistingGamePage_database)
    ultimately show ?thesis using inv look by (simp add: reconciled_keep)
  next
    case (Inr delta)
    show ?thesis
    proof (cases "delta = []")
      case True
      with Inr have "settled g p" by (simp add: settled_def propertiesToUpdate_Nil)
      moreover have "database (sync_game e m0 w g) = database w"
        using Some Inr True by (simp add: sync_game_database updateExistingGamePage_database)
      ultimately show ?thesis using inv look by (simp add: reconciled_keep)
    next
      case False
      have db: "database (sync_game e m0 w g) =
          map (\<lambda>q. if page_id q = page_id p
                    then q\<lparr>properties := patch (properties q) delta\<rparr> else q) (database w)"
        using Some Inr False acc
        by (simp add: sync_game_database updateExistingGamePage_database)
      obtain c where "title_content (properties p) = Inr c"
        using Inr propertiesToUpdate_Inr by blast
      then have "in_sync g (p\<lparr>properties := patch (properties p) delta\<rparr>)"
        using Inr by (rule patched_in_sync)
      moreover have "''appid'' \<notin> fst ` set delta"
        using propertiesToUpdate_keys [OF Inr] by auto
      ultimately show ?thesis
        unfolding db using inv new Some by (intro reconciled_update)
    qed
  qed
qed

lemma reconciled_foldl:
  assumes acc: "\<forall>req. accepted e req"
      and fresh: "\<forall>pages. new_page_id e pages \<notin> page_id ` set pages"
  shows "reconciled m0 seen (database w) \<Longrightarrow> distinct (map appid (seen @ todo)) \<Longrightarrow>
         \<forall>g \<in> set todo. appid g \<noteq> 0 \<Longrightarrow>
         reconciled m0 (seen @ todo) (database (foldl (sync_game e m0) w todo))"
proof (induction todo arbitrary: seen w)
  case Nil
  then show ?case by simp
next
  case (Cons g todo)
  from Cons.prems have "appid g \<notin> appid ` set seen" and "appid g \<noteq> 0" by auto
  with Cons.prems(1) acc fresh
  have "reconciled m0 (seen @ [g]) (database (sync_game e m0 w g))"
    by (intro reconciled_step)
  moreover from Cons.prems have "distinct (map appid ((seen @ [g]) @ todo))" by simp
  moreover from Cons.prems have "\<forall>g \<in> set todo. appid g \<noteq> 0" by simp
  ultimately have "reconciled m0 ((seen @ [g]) @ todo)
      (database (foldl (sync_game e m0) (sync_game e m0 w g) todo))"
    by (rule Cons.IH)
  then show ?case by simp
qed

lemma first_run_reconciles:
  assumes "distinct (map appid steamGames)"
      and "\<forall>g \<in> set steamGames. appid g \<noteq> 0"
      and "distinct (map page_id (database w))"
      and "\<forall>req. accepted e req"
      and "\<forall>pages. new_page_id e pages \<notin> page_id ` set pages"
  shows "reconciled (notionAppIdMap (database w)) steamGames
           (database (syncSteamGamesToNotion e steamGames w))"
proof -
  define w1 where "w1 = w\<lparr>console := console w @
          [Log_starting, Log_found (length steamGames) (length (database w))]\<rparr>"
  have "reconciled (notionAppIdMap (database w)) [] (database w1)"
    using assms(3) by (simp add: reconciled_def w1_def)
  moreover have "distinct (map appid ([] @ steamGames))" using assms(1) by simp
  ultimately have "reconciled (notionAppIdMap (database w)) ([] @ steamGames)
      (database (foldl (sync_game e (notionAppIdMap (database w))) w1 steamGames))"
    using assms(2) by (intro reconciled_foldl [OF assms(4) assms(5)])
  then show ?thesis by (simp add: syncSteamGamesToNotion_database w1_def)
qed

lemma second_run_silent:
  assumes "distinct (map appid steamGames)"
      and "\<forall>g \<in> set steamGames. appid g \<noteq> 0"
      and "distinct (map page_id (database w))"
      and "\<forall>req. accepted e req"
      and "\<forall>pages. new_page_id e pages \<notin> page_id ` set pages"
  shows "sent (syncSteamGamesToNotion e' steamGames (syncSteamGamesToNotion e steamGames w))
           = sent (syncSteamGamesToNotion e steamGames w)"
    and "fetched (syncSteamGamesToNotion e' steamGames (syncSteamGamesToNotion e steamGames w))
           = fetched (syncSteamGamesToNotion e steamGames w)"
    and "database (syncSteamGamesToNotion e' steamGames (syncSteamGamesToNotion e steamGames w))
           = database (syncSteamGamesToNotion e steamGames w)"
proof -
  define w' where "w' = syncSteamGamesToNotion e steamGames w"
  have "reconciled (notionAppIdMap (database w)) steamGames (database w')"
    unfolding w'_def using assms by (rule first_run_reconciles)
  then have all: "\<forall>g \<in> set steamGames.
      \<exists>p. notionAppIdMap (database w') (of_nat (appid g)) = Some p \<and> settled g p"
    by (simp add: reconciled_def)
  show "sent (syncSteamGamesToNotion e' steamGames (syncSteamGamesToNotion e steamGames w))
           = sent (syncSteamGamesToNotion e steamGames w)"
    unfolding w'_def [symmetric]
    using foldl_sync_game_settled [OF all] by (simp add: syncSteamGamesToNotion_sent)
  show "fetched (syncSteamGamesToNotion e' steamGames (syncSteamGamesToNotion e steamGames w))
           = fetched (syncSteamGamesToNotion e steamGames w)"
    unfolding w'_def [symmetric]
    using foldl_sync_game_settled [OF all] by (simp add: syncSteamGamesToNotion_fetched)
  show "database (syncSteamGamesToNotion e' steamGames (syncSteamGamesToNotion e steamGames w))
           = database (syncSteamGamesToNotion e steamGames w)"
    unfolding w'_def [symmetric]
    using foldl_sync_game_settled [OF all] by (simp add: syncSteamGamesToNotion_database)
qed

lemma length_concat_ge: "x \<in> set xs \<Longrightarrow> length x \<le> length (concat xs)"
  by (induction xs) auto

lemma env_ok_fresh: "new_page_id env_ok pages \<notin> page_id ` set pages"
proof
  assume "new_page_id env_ok pages \<in> page_id ` set pages"
  then obtain p where p: "p \<in> set pages" "page_id p = concat (map page_id pages) @ ''+''"
    by (auto simp: env_ok_def)
  from p(1) have "length (page_id p) \<le> length (concat (map page_id pages))"
    by (intro length_concat_ge) simp
  with p(2) show False by simp
qed

lemma env_ok_accepted: "accepted env_ok req"
  by (simp add: accepted_def env_ok_def ok_def)

text \<open>
  C4, amended. For a game matched to a page that agrees with it on title and
  playtime, the delta is empty, the achievements are not requested and no update
  is sent. Consequently a second run on the world the first run leaves sends no
  write, requests no achievements and leaves the database as it is, whatever
  Steam and Notion would answer then, provided that in the first run the games
  have distinct appids other than 0, the pages have distinct identifiers, and
  Notion accepted every write and named each new page by an unused identifier.
\<close>

theorem C4_unchanged_item_and_second_run:
  "(m (of_nat (appid game)) = Some page \<and> in_sync game page \<longrightarrow>
      propertiesToUpdate e game page w = (Inr [], w)
      \<and> sent (sync_game e m w game) = sent w
      \<and> fetched (sync_game e m w game) = fetched w)
   \<and> (distinct (map appid steamGames)
       \<and> (\<forall>g \<in> set steamGames. appid g \<noteq> 0)
       \<and> distinct (map page_id (database w))
       \<and> (\<forall>req. accepted e req)
       \<and> (\<forall>pages. new_page_id e pages \<notin> page_id ` set pages) \<longrightarrow>
      sent (syncSteamGamesToNotion e' steamGames (syncSteamGamesToNotion e steamGames w))
        = sent (syncSteamGamesToNotion e steamGames w)
      \<and> fetched (syncSteamGamesToNotion e' steamGames (syncSteamGamesToNotion e steamGames w))
        = fetched (syncSteamGamesToNotion e steamGames w)
      \<and> database (syncSteamGamesToNotion e' steamGames (syncSteamGamesToNotion e steamGames w))
        = database (syncSteamGamesToNotion e steamGames w))"
proof (intro conjI impI)
  assume h: "m (of_nat (appid game)) = Some page \<and> in_sync game page"
  then show "propertiesToUpdate e game page w = (Inr [], w)"
    by (simp add: in_sync_def propertiesToUpdate_same_playtime)
  from h show "sent (sync_game e m w game) = sent w"
    and "fetched (sync_game e m w game) = fetched w"
    by (simp_all add: sync_game_in_sync)
next
  assume h: "distinct (map appid steamGames)
       \<and> (\<forall>g \<in> set steamGames. appid g \<noteq> 0)
       \<and> distinct (map page_id (database w))
       \<and> (\<forall>req. accepted e req)
       \<and> (\<forall>pages. new_page_id e pages \<notin> page_id ` set pages)"
  then show "sent (syncSteamGamesToNotion e' steamGames (syncSteamGamesToNotion e steamGames w))
        = sent (syncSteamGamesToNotion e steamGames w)"
    by (intro second_run_silent(1)) simp_all
  from h show "fetched (syncSteamGamesToNotion e' steamGames (syncSteamGamesToNotion e steamGames w))
        = fetched (syncSteamGamesToNotion e steamGames w)"
    by (intro second_run_silent(2)) simp_all
  from h show "database (syncSteamGamesToNotion e' steamGames (syncSteamGamesToNotion e steamGames w))
        = database (syncSteamGamesToNotion e steamGames w)"
    by (intro second_run_silent(3)) simp_all
qed

lemma scenario_ab_sent:
  "sent (syncSteamGamesToNotion env_ok [game_a, game_b] (world0 [page_b])) =
     [CreatePage
        [(''appid'', Number_prop (Some 10)),
         (''name'', Title_prop [Some ''Game A'']),
         (''play_time'', Number_prop (Some 120)),
         (''achievement'', Number_prop (Some (3 / 4)))]
        ''https://cdn.akamai.steamstatic.com/steam/apps/10/header.jpg'',
      UpdatePage ''page-b''
        [(''play_time'', Number_prop (Some 500)),
         (''achievement'', Number_prop (Some (3 / 4)))]]"
  by (simp add: syncSteamGamesToNotion_sent sync_game_sent notionAppIdMap_find
      has_appid_def number_def page_b_def game_a_def game_b_def world0_def
      createNewGamePage_sent updateExistingGamePage_sent propertiesToUpdate_new_playtime
      title_content_def rate_env_ok cover_url_def string_of_nat.simps)

theorem C4_unchanged_item_and_second_run_witness:
  "notionAppIdMap [page_b] (of_nat (appid game_c)) = Some page_b
   \<and> in_sync game_c page_b
   \<and> propertiesToUpdate env_unreachable game_c page_b (world0 [page_b]) = (Inr [], world0 [page_b])
   \<and> distinct (map appid [game_a, game_b])
   \<and> appid game_a \<noteq> 0 \<and> appid game_b \<noteq> 0
   \<and> distinct (map page_id (database (world0 [page_b])))
   \<and> (\<forall>req. accepted env_ok req)
   \<and> (\<forall>pages. new_page_id env_ok pages \<notin> page_id ` set pages)
   \<and> sent (syncSteamGamesToNotion env_unreachable [game_a, game_b]
        (syncSteamGamesToNotion env_ok [game_a, game_b] (world0 [page_b])))
      = [CreatePage
        [(''appid'', Number_prop (Some 10)),
         (''name'', Title_prop [Some ''Game A'']),
         (''play_time'', Number_prop (Some 120)),
         (''achievement'', Number_prop (Some (3 / 4)))]
        ''https://cdn.akamai.steamstatic.com/steam/apps/10/header.jpg'',
      UpdatePage ''page-b''
        [(''play_time'', Number_prop (Some 500)),
         (''achievement'', Number_prop (Some (3 / 4)))]]"
  using C4_unchanged_item_and_second_run [where m = "notionAppIdMap [page_b]" and game = game_c and page = page_b
      and e = env_unreachable and w = "world0 [page_b]"]
    C4_unchanged_item_and_second_run [where steamGames = "[game_a, game_b]" and e = env_ok and e' = env_unreachable
      and w = "world0 [page_b]"]
  by (simp add: env_ok_fresh env_ok_accepted scenario_ab_sent)
     (simp add: in_sync_def title_content_def number_def page_b_def game_c_def game_a_def
       game_b_def notionAppIdMap_find has_appid_def world0_def)

lemma env_failing_database:
  "database (syncSteamGamesToNotion env_failing [g] w) = database w"
proof -
  have rej: "\<not> accepted env_failing req" for req
    by (simp add: accepted_def env_failing_def ok_def)
  show ?thesis
    by (simp add: syncSteamGamesToNotion_database sync_game_database
        updateExistingGamePage_database createNewGamePage_def fetchAchievements_eq
        createPage_database rej split: option.splits sum.splits)
qed

text \<open>
  The claim as stated fails without these provisos. When Notion answers 500, the
  create of game A is sent again by the second run; and a game with appid 0 is
  created again by the second run although the first run's create was accepted.
\<close>

theorem C4_second_run_writes_again:
  "sent (syncSteamGamesToNotion env_failing [game_a] (world0 [])) =
     [CreatePage
        [(''appid'', Number_prop (Some 10)),
         (''name'', Title_prop [Some ''Game A'']),
         (''play_time'', Number_prop (Some 120)),
         (''achievement'', Number_prop (Some (3 / 4)))]
        ''https://cdn.akamai.steamstatic.com/steam/apps/10/header.jpg'']
   \<and> sent (syncSteamGamesToNotion env_failing [game_a]
         (syncSteamGamesToNotion env_failing [game_a] (world0 []))) =
     [CreatePage
        [(''appid'', Number_prop (Some 10)),
         (''name'', Title_prop [Some ''Game A'']),
         (''play_time'', Number_prop (Some 120)),
         (''achievement'', Number_prop (Some (3 / 4)))]
        ''https://cdn.akamai.steamstatic.com/steam/apps/10/header.jpg'',
      CreatePage
        [(''appid'', Number_prop (Some 10)),
         (''name'', Title_prop [Some ''Game A'']),
         (''play_time'', Number_prop (Some 120)),
         (''achievement'', Number_prop (Some (3 / 4)))]
        ''https://cdn.akamai.steamstatic.com/steam/apps/10/header.jpg'']
   \<and> sent (syncSteamGamesToNotion env_ok [game_a\<lparr>appid := 0\<rparr>] (world0 [])) =
     [CreatePage
        [(''appid'', Number_prop (Some 0)),
         (''name'', Title_prop [Some ''Game A'']),
         (''play_time'', Number_prop (Some 120)),
         (''achievement'', Number_prop (Some (3 / 4)))]
        ''https://cdn.akamai.steamstatic.com/steam/apps/0/header.jpg'']
   \<and> sent (syncSteamGamesToNotion env_ok [game_a\<lparr>appid := 0\<rparr>]
         (syncSteamGamesToNotion env_ok [game_a\<lparr>appid := 0\<rparr>] (world0 []))) =
     [CreatePage
        [(''appid'', Number_prop (Some 0)),
         (''name'', Title_prop [Some ''Game A'']),
         (''play_time'', Number_prop (Some 120)),
         (''achievement'', Number_prop (Some (3 / 4)))]
        ''https://cdn.akamai.steamstatic.com/steam/apps/0/header.jpg'',
      CreatePage
        [(''appid'', Number_prop (Some 0)),
         (''name'', Title_prop [Some ''Game A'']),
         (''play_time'', Number_prop (Some 120)),
         (''achievement'', Number_prop (Some (3 / 4)))]
        ''https://cdn.akamai.steamstatic.com/steam/apps/0/header.jpg'']"
proof -
  have rate: "fetched_rate env_failing a = 3 / 4" "fetched_rate env_ok a = 3 / 4" for a
    by (rule rate_env_failing, rule rate_env_ok)
  show ?thesis
    by (simp add: syncSteamGamesToNotion_sent sync_game_sent env_failing_database
        notionAppIdMap_find createNewGamePage_sent rate world0_def game_a_def
        cover_url_def string_of_nat.simps)
qed

end
